theory Spec2Isabelle
  imports Complex_Main "HOL-Library.Word" "HOL-Library.Sublist"
    "HOL-Library.List_Lexorder" "HOL-Library.Char_ord"
begin

section \<open>Python values used by utils.py\<close>

text \<open>
  Exceptions are values. The constructor is the Python exception class, its argument the
  message that \<open>str(e)\<close> returns. \<open>External\<close> stands for an exception raised inside
  pydicom, numpy or OpenCV (a decoding error, an I/O error, \<open>cv2.error\<close>).
\<close>

datatype error =
    AttributeError string
  | IndexError string
  | ValueError string
  | OSError string
  | Exception string
  | External string

fun str_error :: "error \<Rightarrow> string" where
  "str_error (AttributeError m) = m"
| "str_error (IndexError m) = m"
| "str_error (ValueError m) = m"
| "str_error (OSError m) = m"
| "str_error (Exception m) = m"
| "str_error (External m) = m"

text \<open>
  A numpy array is its shape and its elements in row-major order. Pixel samples before
  the presentation step are finite floats, modelled as reals; overflow to an infinity is
  not modelled. From the presentation step on a sample can be the result of a division by
  zero, so it is a finite value, NaN or an infinity. The pipeline computes in exact
  arithmetic; the presentation step and the inversion are given a second time with the
  rounding of float arithmetic, for the property that depends on it.
\<close>

record 'a ndarray =
  shape :: "nat list"
  data :: "'a list"

datatype fl = Finite real | NaN | PosInf | NegInf

text \<open>A DICOM number field: one value, or a \<open>pydicom.multival.MultiValue\<close>.\<close>

datatype winval = Single real | MultiValue "real list"

text \<open>
  What pydicom returns for the attribute SeriesNumber or InstanceNumber when the dataset
  has it: an \<open>IS\<close> (an int that keeps the text it was read from, when it was read from
  text), Python's \<open>None\<close> for an element with an empty value, or any other object,
  given by the text that string formatting prints for it.
\<close>

datatype number_value = IS int "string option" | EmptyValue | OtherValue string

text \<open>
  The dataset that \<open>pydicom.dcmread\<close> returns: every attribute the program reads is
  optional (\<open>None\<close>: not in the dataset). \<open>pixel_array\<close> is the result of reading the
  property \<open>ds.pixel_array\<close> and converting it with \<open>astype(float)\<close>; decoding can raise.
\<close>

record dataset =
  SOPClassUID :: "string option"
  RescaleSlope :: "real option"
  RescaleIntercept :: "real option"
  VOILUTFunction :: "string option"
  WindowCenter :: "winval option"
  WindowWidth :: "winval option"
  PhotometricInterpretation :: "string option"
  SeriesNumber :: "number_value option"
  InstanceNumber :: "number_value option"
  pixel_array :: "error + real ndarray"

text \<open>A \<open>pathlib.Path\<close> is its tuple of parts; an absolute path has the first part \<open>/\<close>.\<close>

type_synonym path = "string list"

text \<open>
  The collaborators outside the repository, as parameters: pydicom's reader and lookup
  tables, what the platform's conversion of a float to \<open>uint8\<close> gives where C leaves it
  undefined, and the file system (of an abstract state \<open>'fs\<close>) behind \<open>Path.mkdir\<close>,
  \<open>cv2.imwrite\<close>, \<open>Path.exists\<close>, \<open>Path.is_file\<close>, \<open>Path.is_dir\<close> and \<open>os.walk\<close>.
\<close>

record 'fs env =
  dcmread :: "path \<Rightarrow> error + dataset"
  apply_modality_lut :: "real ndarray \<Rightarrow> dataset \<Rightarrow> error + real ndarray"
  apply_voi_lut :: "real ndarray \<Rightarrow> dataset \<Rightarrow> error + real ndarray"
  cast_undefined :: "fl \<Rightarrow> 8 word"
  mkdir :: "'fs \<Rightarrow> path \<Rightarrow> error option \<times> 'fs"
  imwrite :: "'fs \<Rightarrow> path \<Rightarrow> 8 word ndarray \<Rightarrow> error option \<times> 'fs"
  path_exists :: "'fs \<Rightarrow> path \<Rightarrow> bool"
  path_is_file :: "'fs \<Rightarrow> path \<Rightarrow> bool"
  path_is_dir :: "'fs \<Rightarrow> path \<Rightarrow> bool"
  os_walk :: "'fs \<Rightarrow> path \<Rightarrow> (path \<times> string list) list"

text \<open>What \<open>_ds_to_file\<close> returns: \<open>True\<close> or a message.\<close>

datatype result = RTrue | RStr string

text \<open>The argument \<open>origin\<close>: one path, or a list or tuple of paths.\<close>

datatype origin = One path | Several "path list"

section \<open>Strings and paths\<close>

fun digit_char :: "nat \<Rightarrow> char" where
  "digit_char d = char_of (48 + d)"

function str_nat :: "nat \<Rightarrow> string" where
  "str_nat n = (if n < 10 then [digit_char n] else str_nat (n div 10) @ [digit_char (n mod 10)])"
  by pat_completeness auto
termination
  by (relation "measure id") auto

declare str_nat.simps [simp del]

text \<open>\<open>str(i)\<close> of a Python int, as the f-string formats it.\<close>

definition str_int :: "int \<Rightarrow> string" where
  "str_int i = (if i < 0 then CHR ''-'' # str_nat (nat (- i)) else str_nat (nat i))"

text \<open>
  What an f-string prints for such a value: \<open>IS.__str__\<close> returns the original text
  when there is one and the decimal digits otherwise; \<open>None\<close> prints as \<open>None\<close>.
\<close>

fun format_value :: "number_value \<Rightarrow> string" where
  "format_value (IS n None) = str_int n"
| "format_value (IS n (Some original_string)) = original_string"
| "format_value EmptyValue = ''None''"
| "format_value (OtherValue printed) = printed"

definition lower_char :: "char \<Rightarrow> char" where
  "lower_char c =
     (if 65 \<le> (of_char c :: nat) \<and> (of_char c :: nat) \<le> 90 then char_of ((of_char c :: nat) + 32)
      else c)"

text \<open>\<open>str.lower\<close>, on ASCII.\<close>

definition lower :: "string \<Rightarrow> string" where
  "lower s = map lower_char s"

definition endswith :: "string \<Rightarrow> string \<Rightarrow> bool" where
  "endswith s t = (length t \<le> length s \<and> drop (length s - length t) s = t)"

fun split_on :: "char \<Rightarrow> string \<Rightarrow> string list" where
  "split_on c [] = [[]]"
| "split_on c (x # xs) =
     (if x = c then [] # split_on c xs
      else (case split_on c xs of [] \<Rightarrow> [[x]] | w # ws \<Rightarrow> (x # w) # ws))"

text \<open>\<open>Path(s)\<close> on POSIX: empty components and \<open>.\<close> are dropped.\<close>

definition Path :: "string \<Rightarrow> path" where
  "Path s =
     (if s \<noteq> [] \<and> hd s = CHR ''/'' then [''/''] else []) @
     filter (\<lambda>w. w \<noteq> [] \<and> w \<noteq> ''.'') (split_on (CHR ''/'') s)"

text \<open>\<open>a / b\<close>: an absolute right operand replaces the left one.\<close>

definition path_join :: "path \<Rightarrow> path \<Rightarrow> path" where
  "path_join a b = (if b \<noteq> [] \<and> hd b = ''/'' then b else a @ b)"

definition parent :: "path \<Rightarrow> path" where
  "parent p = (if p = [] \<or> p = [''/''] then p else butlast p)"

fun join_slash :: "string list \<Rightarrow> string" where
  "join_slash [] = []"
| "join_slash [x] = x"
| "join_slash (x # y # r) = x @ ''/'' @ join_slash (y # r)"

text \<open>\<open>str(p)\<close>, which is also what an f-string prints for a path.\<close>

definition path_str :: "path \<Rightarrow> string" where
  "path_str p =
     (case p of
        [] \<Rightarrow> ''.''
      | a # r \<Rightarrow> if a = ''/'' then ''/'' @ join_slash r else join_slash p)"

text \<open>\<open>p.suffix\<close>: the last component from its last dot, unless the dot is first or last.\<close>

definition path_suffix :: "path \<Rightarrow> string" where
  "path_suffix p =
     (if p = [] \<or> p = [''/''] then []
      else
        (let name = last p;
             k = length (takeWhile (\<lambda>c. c \<noteq> CHR ''.'') (rev name))
         in if CHR ''.'' \<in> set name \<and> 0 < k \<and> k < length name - 1
            then drop (length name - 1 - k) name
            else []))"

section \<open>The compatibility gate\<close>

text \<open>Reading an attribute that the dataset does not have raises \<open>AttributeError\<close>.\<close>

definition getattr :: "string \<Rightarrow> 'a option \<Rightarrow> error + 'a" where
  "getattr name field =
     (case field of
        None \<Rightarrow> Inl (AttributeError (''Dataset object has no attribute '' @ name))
      | Some v \<Rightarrow> Inr v)"

text \<open>\<open>_is_unsupported\<close>: the name of the unsupported class, or \<open>None\<close> for Python's \<open>False\<close>.\<close>

definition is_unsupported :: "dataset \<Rightarrow> error + string option" where
  "is_unsupported ds =
     (case getattr ''SOPClassUID'' (SOPClassUID ds) of
        Inl e \<Rightarrow> Inl e
      | Inr uid \<Rightarrow>
          if uid = ''1.2.840.10008.5.1.4.1.1.104.1'' then Inr (Some ''Encapsulated PDF Storage'')
          else if uid = ''1.2.840.10008.5.1.4.1.1.88.59'' then Inr (Some ''Key Object Selection Document'')
          else Inr None)"

text \<open>Truth value of that result in \<open>if is_unsupported:\<close>.\<close>

definition truthy :: "string option \<Rightarrow> bool" where
  "truthy u = (case u of None \<Rightarrow> False | Some s \<Rightarrow> s \<noteq> [])"

section \<open>The pixel pipeline\<close>

text \<open>\<open>ndarray.min()\<close> and \<open>ndarray.max()\<close>: a zero-size array raises \<open>ValueError\<close>.\<close>

definition amin :: "real list \<Rightarrow> error + real" where
  "amin xs =
     (case xs of
        [] \<Rightarrow> Inl (ValueError ''zero-size array to reduction operation minimum which has no identity'')
      | x # r \<Rightarrow> Inr (fold min r x))"

definition amax :: "real list \<Rightarrow> error + real" where
  "amax xs =
     (case xs of
        [] \<Rightarrow> Inl (ValueError ''zero-size array to reduction operation maximum which has no identity'')
      | x # r \<Rightarrow> Inr (fold max r x))"

text \<open>
  \<open>np.piecewise\<close>, for one element \<open>v\<close>: the output starts at 0 and every pair of a
  condition and a function is applied in order, so a later pair overwrites an earlier one.
\<close>

definition assign :: "((real \<Rightarrow> bool) \<times> (real \<Rightarrow> real)) list \<Rightarrow> real \<Rightarrow> real" where
  "assign pairs v = fold (\<lambda>(c, f) y. if c v then f v else y) pairs 0"

text \<open>
  \<open>np.piecewise(x, condlist, funclist)\<close>: with one function more than conditions, the
  last function is for the elements no condition holds of.
\<close>

definition piecewise ::
  "real list \<Rightarrow> (real \<Rightarrow> bool) list \<Rightarrow> (real \<Rightarrow> real) list \<Rightarrow> error + real list" where
  "piecewise x condlist funclist =
     (let n = length condlist; n2 = length funclist in
      if int n = int n2 - 1
      then Inr (map (assign (zip (condlist @ [\<lambda>v. \<not> list_ex (\<lambda>c. c v) condlist]) funclist)) x)
      else if n \<noteq> n2
      then Inl (ValueError ''with n condition(s), either n or n+1 functions are expected'')
      else Inr (map (assign (zip condlist funclist)) x))"

text \<open>\<open>_get_LUT_value_LINEAR_EXACT(data, window, level)\<close>.\<close>

definition get_LUT_value_LINEAR_EXACT :: "real ndarray \<Rightarrow> real \<Rightarrow> real \<Rightarrow> error + real ndarray" where
  "get_LUT_value_LINEAR_EXACT a window level =
     (case amin (data a) of
        Inl e \<Rightarrow> Inl e
      | Inr data_min \<Rightarrow>
          (case amax (data a) of
             Inl e \<Rightarrow> Inl e
           | Inr data_max \<Rightarrow>
               (let data_range = data_max - data_min in
                case piecewise (data a)
                       [\<lambda>x. x \<le> level - window / 2, \<lambda>x. x > level + window / 2]
                       [\<lambda>x. data_min, \<lambda>x. data_max,
                        \<lambda>x. ((x - level + window / 2) / window * data_range) + data_min] of
                  Inl e \<Rightarrow> Inl e
                | Inr ys \<Rightarrow> Inr (a\<lparr>data := ys\<rparr>))))"

text \<open>Step 1, the modality LUT.\<close>

definition modality_lut :: "'fs env \<Rightarrow> dataset \<Rightarrow> real ndarray \<Rightarrow> error + real ndarray" where
  "modality_lut env ds a =
     (case (RescaleSlope ds, RescaleIntercept ds) of
        (Some rescale_slope, Some rescale_intercept) \<Rightarrow>
          Inr (a\<lparr>data := map (\<lambda>x. x * rescale_slope + rescale_intercept) (data a)\<rparr>)
      | _ \<Rightarrow> apply_modality_lut env a ds)"

text \<open>The first value of a multi-valued field, the value itself otherwise.\<close>

definition first_value :: "winval \<Rightarrow> error + real" where
  "first_value w =
     (case w of
        Single v \<Rightarrow> Inr v
      | MultiValue vs \<Rightarrow>
          (case vs of [] \<Rightarrow> Inl (IndexError ''list index out of range'') | v # r \<Rightarrow> Inr v))"

text \<open>Step 2, the VOI LUT.\<close>

definition voi_lut :: "'fs env \<Rightarrow> dataset \<Rightarrow> real ndarray \<Rightarrow> error + real ndarray" where
  "voi_lut env ds a =
     (if VOILUTFunction ds = Some ''SIGMOID'' then apply_voi_lut env a ds
      else
        (case (WindowCenter ds, WindowWidth ds) of
           (Some wc, Some ww) \<Rightarrow>
             (case first_value wc of
                Inl e \<Rightarrow> Inl e
              | Inr window_center \<Rightarrow>
                  (case first_value ww of
                     Inl e \<Rightarrow> Inl e
                   | Inr window_width \<Rightarrow> get_LUT_value_LINEAR_EXACT a window_width window_center))
         | _ \<Rightarrow> apply_voi_lut env a ds))"

text \<open>
  Float division and multiplication as numpy does them: a division by zero gives
  NaN (0/0) or an infinity and raises nothing.
\<close>

definition fdiv :: "real \<Rightarrow> real \<Rightarrow> fl" where
  "fdiv a b =
     (if b = 0 then (if a = 0 then NaN else if 0 < a then PosInf else NegInf)
      else Finite (a / b))"

fun fscale :: "fl \<Rightarrow> real \<Rightarrow> fl" where
  "fscale (Finite a) c = Finite (a * c)"
| "fscale NaN c = NaN"
| "fscale PosInf c = (if c = 0 then NaN else if 0 < c then PosInf else NegInf)"
| "fscale NegInf c = (if c = 0 then NaN else if 0 < c then NegInf else PosInf)"

text \<open>Step 3, the presentation LUT: \<open>((a - a.min()) / (a.max() - a.min())) * 255.0\<close>.\<close>

definition presentation_lut :: "real ndarray \<Rightarrow> error + fl ndarray" where
  "presentation_lut a =
     (case amin (data a) of
        Inl e \<Rightarrow> Inl e
      | Inr mn \<Rightarrow>
          (case amax (data a) of
             Inl e \<Rightarrow> Inl e
           | Inr mx \<Rightarrow>
               Inr \<lparr>shape = shape a,
                    data = map (\<lambda>x. fscale (fdiv (x - mn) (mx - mn)) 255) (data a)\<rparr>))"

text \<open>\<open>np.max\<close> of floats (a NaN wins) and float subtraction.\<close>

fun fmaximum :: "fl \<Rightarrow> fl \<Rightarrow> fl" where
  "fmaximum NaN y = NaN"
| "fmaximum x NaN = NaN"
| "fmaximum PosInf y = PosInf"
| "fmaximum x PosInf = PosInf"
| "fmaximum NegInf y = y"
| "fmaximum x NegInf = x"
| "fmaximum (Finite a) (Finite b) = Finite (max a b)"

definition fl_amax :: "fl list \<Rightarrow> error + fl" where
  "fl_amax xs =
     (case xs of
        [] \<Rightarrow> Inl (ValueError ''zero-size array to reduction operation maximum which has no identity'')
      | x # r \<Rightarrow> Inr (fold fmaximum r x))"

fun fsub :: "fl \<Rightarrow> fl \<Rightarrow> fl" where
  "fsub NaN y = NaN"
| "fsub x NaN = NaN"
| "fsub PosInf PosInf = NaN"
| "fsub NegInf NegInf = NaN"
| "fsub PosInf y = PosInf"
| "fsub NegInf y = NegInf"
| "fsub (Finite a) PosInf = NegInf"
| "fsub (Finite a) NegInf = PosInf"
| "fsub (Finite a) (Finite b) = Finite (a - b)"

text \<open>The MONOCHROME1 inversion, \<open>np.max(a) - a\<close>.\<close>

definition invert :: "fl ndarray \<Rightarrow> error + fl ndarray" where
  "invert a =
     (case fl_amax (data a) of
        Inl e \<Rightarrow> Inl e
      | Inr m \<Rightarrow> Inr (a\<lparr>data := map (\<lambda>x. fsub m x) (data a)\<rparr>))"

definition handle_monochrome1 :: "dataset \<Rightarrow> fl ndarray \<Rightarrow> error + fl ndarray" where
  "handle_monochrome1 ds a =
     (if PhotometricInterpretation ds = Some ''MONOCHROME1'' then invert a else Inr a)"

text \<open>
  \<open>astype('uint8')\<close> of one sample: the fraction is cut off when the result fits the
  type; any other conversion is undefined in C and left to the platform.
\<close>

definition to_uint8 :: "'fs env \<Rightarrow> fl \<Rightarrow> 8 word" where
  "to_uint8 env x =
     (case x of
        Finite r \<Rightarrow>
          if - 1 < r \<and> r < 256 then word_of_int (if 0 \<le> r then \<lfloor>r\<rfloor> else \<lceil>r\<rceil>)
          else cast_undefined env x
      | _ \<Rightarrow> cast_undefined env x)"

definition astype_uint8 :: "'fs env \<Rightarrow> fl ndarray \<Rightarrow> 8 word ndarray" where
  "astype_uint8 env a = \<lparr>shape = shape a, data = map (to_uint8 env) (data a)\<rparr>"

text \<open>\<open>_pixel_process(ds, pixel_array)\<close>.\<close>

definition pixel_process :: "'fs env \<Rightarrow> dataset \<Rightarrow> real ndarray \<Rightarrow> error + 8 word ndarray" where
  "pixel_process env ds a =
     (case modality_lut env ds a of
        Inl e \<Rightarrow> Inl e
      | Inr a1 \<Rightarrow>
          (case voi_lut env ds a1 of
             Inl e \<Rightarrow> Inl e
           | Inr a2 \<Rightarrow>
               (case presentation_lut a2 of
                  Inl e \<Rightarrow> Inl e
                | Inr a3 \<Rightarrow>
                    (case handle_monochrome1 ds a3 of
                       Inl e \<Rightarrow> Inl e
                     | Inr a4 \<Rightarrow> Inr (astype_uint8 env a4)))))"

section \<open>The presentation step and the inversion with rounding\<close>

text \<open>
  The pipeline above computes in exact arithmetic. Here are the presentation step and the
  inversion once more with the rounding of float arithmetic: \<open>rnd\<close> is the rounding
  function of the platform (round to nearest for float64), applied to the result of every
  arithmetic operation. With the identity for \<open>rnd\<close> they are the steps above.
\<close>

definition fdiv_rounded :: "(real \<Rightarrow> real) \<Rightarrow> real \<Rightarrow> real \<Rightarrow> fl" where
  "fdiv_rounded rnd a b =
     (if b = 0 then (if a = 0 then NaN else if 0 < a then PosInf else NegInf)
      else Finite (rnd (a / b)))"

fun fscale_rounded :: "(real \<Rightarrow> real) \<Rightarrow> fl \<Rightarrow> real \<Rightarrow> fl" where
  "fscale_rounded rnd (Finite a) c = Finite (rnd (a * c))"
| "fscale_rounded rnd NaN c = NaN"
| "fscale_rounded rnd PosInf c = (if c = 0 then NaN else if 0 < c then PosInf else NegInf)"
| "fscale_rounded rnd NegInf c = (if c = 0 then NaN else if 0 < c then NegInf else PosInf)"

definition presentation_lut_rounded :: "(real \<Rightarrow> real) \<Rightarrow> real ndarray \<Rightarrow> error + fl ndarray" where
  "presentation_lut_rounded rnd a =
     (case amin (data a) of
        Inl e \<Rightarrow> Inl e
      | Inr mn \<Rightarrow>
          (case amax (data a) of
             Inl e \<Rightarrow> Inl e
           | Inr mx \<Rightarrow>
               Inr \<lparr>shape = shape a,
                    data = map (\<lambda>x. fscale_rounded rnd
                                       (fdiv_rounded rnd (rnd (x - mn)) (rnd (mx - mn))) 255)
                             (data a)\<rparr>))"

fun fsub_rounded :: "(real \<Rightarrow> real) \<Rightarrow> fl \<Rightarrow> fl \<Rightarrow> fl" where
  "fsub_rounded rnd NaN y = NaN"
| "fsub_rounded rnd x NaN = NaN"
| "fsub_rounded rnd PosInf PosInf = NaN"
| "fsub_rounded rnd NegInf NegInf = NaN"
| "fsub_rounded rnd PosInf y = PosInf"
| "fsub_rounded rnd NegInf y = NegInf"
| "fsub_rounded rnd (Finite a) PosInf = NegInf"
| "fsub_rounded rnd (Finite a) NegInf = PosInf"
| "fsub_rounded rnd (Finite a) (Finite b) = Finite (rnd (a - b))"

definition invert_rounded :: "(real \<Rightarrow> real) \<Rightarrow> fl ndarray \<Rightarrow> error + fl ndarray" where
  "invert_rounded rnd a =
     (case fl_amax (data a) of
        Inl e \<Rightarrow> Inl e
      | Inr m \<Rightarrow> Inr (a\<lparr>data := map (\<lambda>x. fsub_rounded rnd m x) (data a)\<rparr>))"

section \<open>Converting one file\<close>

text \<open>The multiframe test of \<open>_ds_to_file\<close>: \<open>len(shape) == 3 and shape[2] != 3\<close>.\<close>

definition is_multiframe :: "'a ndarray \<Rightarrow> bool" where
  "is_multiframe a = (length (shape a) = 3 \<and> shape a ! 2 \<noteq> 3)"

definition color_photometrics :: "string list" where
  "color_photometrics =
     [''YBR_RCT'', ''RGB'', ''YBR_ICT'', ''YBR_PARTIAL_420'', ''YBR_FULL_422'', ''YBR_FULL'',
      ''PALETTE COLOR'']"

text \<open>
  \<open>a[:, :, [0, 2]] = a[:, :, [2, 0]]\<close>: numpy builds the right-hand side first, then
  assigns. The index list selects positions 2 and 0 of the third axis, so the array needs
  three axes and the third at least three entries; otherwise numpy raises \<open>IndexError\<close>.
  Element \<open>k\<close> of the row-major data lies at position \<open>(k div inner) mod n2\<close> of the third
  axis, where \<open>inner\<close> is the number of elements under one such position.
\<close>

definition swap_source :: "nat list \<Rightarrow> nat \<Rightarrow> nat" where
  "swap_source shp k =
     (let inner = prod_list (drop 3 shp);
          c = (k div inner) mod (shp ! 2)
      in if c = 0 then k + 2 * inner else if c = 2 then k - 2 * inner else k)"

definition swap_channels :: "'a ndarray \<Rightarrow> error + 'a ndarray" where
  "swap_channels a =
     (if length (shape a) < 3
      then Inl (IndexError ''too many indices for array'')
      else if shape a ! 2 \<le> 2
      then Inl (IndexError ''index 2 is out of bounds for axis 2'')
      else Inr (a\<lparr>data := map (\<lambda>k. data a ! swap_source (shape a) k) [0..<length (data a)]\<rparr>))"

text \<open>The color step of \<open>_ds_to_file\<close> (RGB to BGR for OpenCV).\<close>

definition handle_color :: "dataset \<Rightarrow> 'a ndarray \<Rightarrow> error + 'a ndarray" where
  "handle_color ds a =
     (case PhotometricInterpretation ds of
        None \<Rightarrow> Inr a
      | Some p \<Rightarrow> if p \<in> set color_photometrics then swap_channels a else Inr a)"

text \<open>
  \<open>_get_export_file_path(ds, file_path, target_root)\<close>: each \<open>try\<close> reads the attribute
  and falls back to the token when that raises; the f-string then prints the value or
  the token.
\<close>

definition get_export_file_path :: "dataset \<Rightarrow> path \<Rightarrow> path \<Rightarrow> path" where
  "get_export_file_path ds file_path target_root =
     (let series_number =
            (case getattr ''SeriesNumber'' (SeriesNumber ds) of
               Inl e \<Rightarrow> ''Ser'' | Inr v \<Rightarrow> format_value v);
          instance_number =
            (case getattr ''InstanceNumber'' (InstanceNumber ds) of
               Inl e \<Rightarrow> ''Ins'' | Inr v \<Rightarrow> format_value v);
          filename = series_number @ ''_'' @ instance_number @ ''.bmp''
      in path_join target_root (Path filename))"

text \<open>
  The body of the \<open>try\<close> block of \<open>_ds_to_file\<close>: what it returns or raises, and the
  file system it leaves.
\<close>

definition ds_to_file_body :: "'fs env \<Rightarrow> 'fs \<Rightarrow> path \<Rightarrow> path \<Rightarrow> (error + result) \<times> 'fs" where
  "ds_to_file_body env fs file_path target_root =
     (case dcmread env file_path of
        Inl e \<Rightarrow> (Inl e, fs)
      | Inr ds \<Rightarrow>
          (case is_unsupported ds of
             Inl e \<Rightarrow> (Inl e, fs)
           | Inr unsupported \<Rightarrow>
               if truthy unsupported
               then (Inr (RStr (path_str file_path @ '' cannot be converted.\<newline>'' @
                               the unsupported @ '' is currently not supported'')), fs)
               else
                 (case pixel_array ds of
                    Inl e \<Rightarrow> (Inl e, fs)
                  | Inr a \<Rightarrow>
                      if is_multiframe a
                      then (Inr (RStr (path_str file_path @ '' cannot be converted.\<newline>'' @
                                      ''Multiframe images are currently not supported'')), fs)
                      else
                        (case pixel_process env ds a of
                           Inl e \<Rightarrow> (Inl e, fs)
                         | Inr p \<Rightarrow>
                             (case handle_color ds p of
                                Inl e \<Rightarrow> (Inl e, fs)
                              | Inr img \<Rightarrow>
                                  (let full_export_fp_fn =
                                         get_export_file_path ds file_path target_root
                                   in case mkdir env fs (parent full_export_fp_fn) of
                                        (Some e, fs1) \<Rightarrow> (Inl e, fs1)
                                      | (None, fs1) \<Rightarrow>
                                          (case imwrite env fs1 full_export_fp_fn img of
                                             (Some e, fs2) \<Rightarrow> (Inl e, fs2)
                                           | (None, fs2) \<Rightarrow> (Inr RTrue, fs2))))))))"

text \<open>\<open>_ds_to_file(file_path, target_root)\<close>: the body under \<open>except Exception\<close>.\<close>

definition ds_to_file :: "'fs env \<Rightarrow> 'fs \<Rightarrow> path \<Rightarrow> path \<Rightarrow> result \<times> 'fs" where
  "ds_to_file env fs file_path target_root =
     (case ds_to_file_body env fs file_path target_root of
        (Inl e, fs1) \<Rightarrow>
          (RStr (''Error converting '' @ path_str file_path @ '': '' @ str_error e), fs1)
      | (Inr r, fs1) \<Rightarrow> (r, fs1))"

section \<open>The batch\<close>

text \<open>
  The loop of \<open>_get_root_get_dicom_file_list\<close> over the origins; it raises at the first
  origin that does not exist or is a file without the suffix \<open>.dcm\<close>.
\<close>

fun collect :: "'fs env \<Rightarrow> 'fs \<Rightarrow> path list \<Rightarrow> path list \<Rightarrow> error + path list" where
  "collect env fs [] dicom_file_list = Inr dicom_file_list"
| "collect env fs (origin # rest) dicom_file_list =
     (if \<not> path_exists env fs origin
      then Inl (OSError (''File or folder '' @ [CHR 0x27] @ path_str origin @ [CHR 0x27] @
                          '' does not exist''))
      else if path_is_file env fs origin
      then (if lower (path_suffix origin) \<noteq> ''.dcm''
            then Inl (Exception ''Input file type should be a DICOM file'')
            else collect env fs rest (dicom_file_list @ [origin]))
      else if path_is_dir env fs origin
      then collect env fs rest
             (dicom_file_list @
              concat (map (\<lambda>(walk_root, fnames).
                             map (\<lambda>f. path_join walk_root (Path f))
                               (filter (\<lambda>f. endswith (lower f) ''.dcm'') fnames))
                        (os_walk env fs origin)))
      else collect env fs rest dicom_file_list)"

definition get_root_get_dicom_file_list ::
  "'fs env \<Rightarrow> 'fs \<Rightarrow> origin \<Rightarrow> path option \<Rightarrow> error + (path \<times> path list)" where
  "get_root_get_dicom_file_list env fs origin_input target_root =
     (let origin_list = (case origin_input of One p \<Rightarrow> [p] | Several ps \<Rightarrow> ps) in
      case collect env fs origin_list [] of
        Inl e \<Rightarrow> Inl e
      | Inr dicom_file_list \<Rightarrow>
          (case target_root of
             Some t \<Rightarrow> Inr (t, sort dicom_file_list)
           | None \<Rightarrow>
               (case origin_list of
                  [] \<Rightarrow> Inl (IndexError ''list index out of range'')
                | p # r \<Rightarrow> Inr (parent p, sort dicom_file_list))))"

text \<open>
  The list of results of \<open>_ds_to_file\<close> over the files, with the file system threaded
  through. The process pool of the parallel branch submits the same calls and gathers
  their results in the order of submission; its scheduling is not modelled, the tasks'
  effects on the file system are taken in that order.
\<close>

fun convert_all :: "'fs env \<Rightarrow> 'fs \<Rightarrow> path list \<Rightarrow> path \<Rightarrow> result list \<times> 'fs" where
  "convert_all env fs [] target_root = ([], fs)"
| "convert_all env fs (file_path # rest) target_root =
     (case ds_to_file env fs file_path target_root of
        (r, fs1) \<Rightarrow>
          (case convert_all env fs1 rest target_root of
             (rs, fs2) \<Rightarrow> (r # rs, fs2)))"

text \<open>
  \<open>_dicom_convertor(origin, target_root, multiprocessing)\<close>, without its printing: the
  value it returns or the setup error it raises, and the file system it leaves.
\<close>

definition dicom_convertor ::
  "'fs env \<Rightarrow> 'fs \<Rightarrow> origin \<Rightarrow> path option \<Rightarrow> bool \<Rightarrow> (error + bool) \<times> 'fs" where
  "dicom_convertor env fs origin target_root multiprocessing =
     (case get_root_get_dicom_file_list env fs origin target_root of
        Inl e \<Rightarrow> (Inl e, fs)
      | Inr (root_folder, dicom_file_list) \<Rightarrow>
          if dicom_file_list = [] then (Inr False, fs)
          else
            (case (if multiprocessing \<and> length dicom_file_list > 1
                   then convert_all env fs dicom_file_list root_folder
                   else convert_all env fs dicom_file_list root_folder) of
               (results, fs1) \<Rightarrow>
                 (let successful = length (filter (\<lambda>r. r = RTrue) results)
                  in (Inr (successful > 0), fs1))))"

section \<open>Example inputs\<close>

text \<open>A dataset without any attribute, and collaborators that always succeed; the file
  system of the examples is the list of the files written so far.\<close>

definition blank_dataset :: dataset where
  "blank_dataset =
     \<lparr>SOPClassUID = None, RescaleSlope = None, RescaleIntercept = None, VOILUTFunction = None,
      WindowCenter = None, WindowWidth = None, PhotometricInterpretation = None,
      SeriesNumber = None, InstanceNumber = None,
      pixel_array = Inl (AttributeError ''Dataset object has no attribute PixelData'')\<rparr>"

definition sim_env :: "(path \<times> 8 word ndarray) list env" where
  "sim_env =
     \<lparr>dcmread = (\<lambda>p. Inl (External ''cannot read file'')),
      apply_modality_lut = (\<lambda>a ds. Inr a),
      apply_voi_lut = (\<lambda>a ds. Inr a),
      cast_undefined = (\<lambda>x. 0),
      mkdir = (\<lambda>fs p. (None, fs)),
      imwrite = (\<lambda>fs p img. (None, fs @ [(p, img)])),
      path_exists = (\<lambda>fs p. False),
      path_is_file = (\<lambda>fs p. False),
      path_is_dir = (\<lambda>fs p. False),
      os_walk = (\<lambda>fs p. [])\<rparr>"

definition gray_dataset :: dataset where
  "gray_dataset =
     blank_dataset
       \<lparr>SOPClassUID := Some ''1.2.840.10008.5.1.4.1.1.2'',
        WindowCenter := Some (MultiValue [150, 40]),
        WindowWidth := Some (Single 100),
        SeriesNumber := Some (IS 3 (Some ''3'')), InstanceNumber := Some (IS 12 (Some ''12'')),
        pixel_array := Inr \<lparr>shape = [2, 3], data = [0, 100, 150, 200, 300, 175]\<rparr>\<rparr>"

definition volume_dataset :: dataset where
  "volume_dataset =
     blank_dataset
       \<lparr>SOPClassUID := Some ''1.2.840.10008.5.1.4.1.1.2'',
        pixel_array := Inr \<lparr>shape = [2, 2, 5], data = replicate 20 0\<rparr>\<rparr>"

definition two_file_env :: "(path \<times> 8 word ndarray) list env" where
  "two_file_env =
     sim_env
       \<lparr>dcmread := \<lambda>p. if p = [''scan'', ''a.dcm''] then Inl (External ''cannot read file'')
                        else Inr gray_dataset,
        path_exists := \<lambda>fs p. True,
        path_is_dir := \<lambda>fs p. p = [''scan''],
        os_walk := \<lambda>fs p. [([''scan''], [''b.DCM'', ''notes.txt'', ''a.dcm''])]\<rparr>"

definition empty_dir_env :: "(path \<times> 8 word ndarray) list env" where
  "empty_dir_env =
     sim_env
       \<lparr>path_exists := \<lambda>fs p. True,
        path_is_dir := \<lambda>fs p. True,
        os_walk := \<lambda>fs p. [(p, [''notes.txt''])]\<rparr>"

definition palette_dataset :: dataset where
  "palette_dataset =
     blank_dataset
       \<lparr>SOPClassUID := Some ''1.2.840.10008.5.1.4.1.1.7'',
        PhotometricInterpretation := Some ''PALETTE COLOR'',
        pixel_array := Inr \<lparr>shape = [2, 2], data = [0, 85, 170, 255]\<rparr>\<rparr>"

text \<open>
  A rounding function for the examples: to the nearest eighth below 128 and to the nearest
  quarter from 128 on, ties downwards. Like the rounding of float64 it is monotone, exact
  on small integers and coarser for larger values.
\<close>

definition round_two_grids :: "real \<Rightarrow> real" where
  "round_two_grids x =
     (if x < 128 then of_int \<lceil>x * 8 - 1 / 2\<rceil> / 8 else of_int \<lceil>x * 4 - 1 / 2\<rceil> / 4)"

section \<open>Properties of strings and paths\<close>

lemma digit_char_not_slash: "d < 10 \<Longrightarrow> digit_char d \<noteq> CHR ''/''"
proof
  assume d: "d < 10" and eq: "digit_char d = CHR ''/''"
  then have "of_char (digit_char d) = (of_char (CHR ''/'') :: nat)" by simp
  with d show False by simp
qed

lemma str_nat_no_slash: "CHR ''/'' \<notin> set (str_nat n)"
proof (induction n rule: str_nat.induct)
  case (1 n)
  show ?case
  proof (cases "n < 10")
    case True
    then show ?thesis using digit_char_not_slash [of n] by (subst str_nat.simps) simp
  next
    case False
    have "n mod 10 < 10" by simp
    then have "digit_char (n mod 10) \<noteq> CHR ''/''" by (rule digit_char_not_slash)
    with False 1 show ?thesis by (subst str_nat.simps) simp
  qed
qed

lemma str_int_no_slash: "CHR ''/'' \<notin> set (str_int i)"
  by (simp add: str_int_def str_nat_no_slash)

lemma str_int_3: "str_int 3 = ''3''"
  by code_simp

lemma str_int_12: "str_int 12 = ''12''"
  by code_simp

lemma split_on_absent: "c \<notin> set s \<Longrightarrow> split_on c s = [s]"
  by (induction s) auto

lemma Path_single:
  assumes "CHR ''/'' \<notin> set s" and "s \<noteq> []" and "s \<noteq> ''.''"
  shows "Path s = [s]"
proof -
  have "hd s \<noteq> CHR ''/''" using assms(1,2) by (cases s) auto
  then show ?thesis using assms by (simp add: Path_def split_on_absent)
qed

section \<open>The export path\<close>

text \<open>The texts printed for the two attributes, with the tokens for absent ones.\<close>

lemma export_file_path_printed:
  "get_export_file_path ds file_path target_root =
     path_join target_root
       (Path ((case SeriesNumber ds of None \<Rightarrow> ''Ser'' | Some v \<Rightarrow> format_value v) @ ''_'' @
              (case InstanceNumber ds of None \<Rightarrow> ''Ins'' | Some v \<Rightarrow> format_value v) @ ''.bmp''))"
  by (simp add: get_export_file_path_def getattr_def Let_def split: option.split)

text \<open>A file name without a slash is one component under the target root.\<close>

lemma join_file_name:
  assumes "CHR ''/'' \<notin> set s" and "CHR ''/'' \<notin> set i"
  shows "path_join target_root (Path (s @ ''_'' @ i @ ''.bmp'')) =
           target_root @ [s @ ''_'' @ i @ ''.bmp'']"
proof -
  let ?f = "s @ ''_'' @ i @ ''.bmp''"
  have ns: "CHR ''/'' \<notin> set ?f" using assms by simp
  have len: "length ?f \<ge> 5" by simp
  have ne: "?f \<noteq> []" "?f \<noteq> ''.''" "?f \<noteq> ''/''" using len by auto
  have P: "Path ?f = [?f]" using ns ne(1,2) by (rule Path_single)
  show ?thesis using ne(3) by (simp only: P path_join_def) simp
qed

lemma plain_values_have_no_slash:
  "CHR ''/'' \<notin> set (format_value (IS n None))"
  "CHR ''/'' \<notin> set (format_value EmptyValue)"
  by (simp_all add: str_int_no_slash)

lemma export_file_path_parts:
  assumes "CHR ''/'' \<notin> set (case SeriesNumber ds of None \<Rightarrow> ''Ser'' | Some v \<Rightarrow> format_value v)"
    and "CHR ''/'' \<notin> set (case InstanceNumber ds of None \<Rightarrow> ''Ins'' | Some v \<Rightarrow> format_value v)"
  shows "get_export_file_path ds file_path target_root =
     target_root @
     [(case SeriesNumber ds of None \<Rightarrow> ''Ser'' | Some v \<Rightarrow> format_value v) @ ''_'' @
      (case InstanceNumber ds of None \<Rightarrow> ''Ins'' | Some v \<Rightarrow> format_value v) @ ''.bmp'']"
  unfolding export_file_path_printed using assms by (rule join_file_name)

text \<open>
  Claim C7, as the code has it. For every dataset and output root, the export path is
  the root joined with \<open>Path(f"{s}_{i}.bmp")\<close>, where \<open>s\<close> and \<open>i\<close> are the texts that
  string formatting prints for the values of SeriesNumber and InstanceNumber (the original
  text of an integer string read from the file, the decimal digits of a plain int,
  \<open>None\<close> for an element with an empty value), with the token \<open>Ser\<close> for an absent
  SeriesNumber and \<open>Ins\<close> for an absent InstanceNumber. When neither text holds a slash
  the path is the root followed by the one component \<open>{s}_{i}.bmp\<close>. A dataset with
  neither attribute gives \<open>Ser_Ins.bmp\<close>; SeriesNumber 3 and InstanceNumber 12, printed as
  \<open>3\<close> and \<open>12\<close>, give \<open>3_12.bmp\<close>.
\<close>

theorem export_path_from_series_and_instance:
  "get_export_file_path ds file_path target_root =
     path_join target_root
       (Path ((case SeriesNumber ds of None \<Rightarrow> ''Ser'' | Some v \<Rightarrow> format_value v) @ ''_'' @
              (case InstanceNumber ds of None \<Rightarrow> ''Ins'' | Some v \<Rightarrow> format_value v) @ ''.bmp'')) \<and>
   (CHR ''/'' \<notin> set (case SeriesNumber ds of None \<Rightarrow> ''Ser'' | Some v \<Rightarrow> format_value v) \<and>
    CHR ''/'' \<notin> set (case InstanceNumber ds of None \<Rightarrow> ''Ins'' | Some v \<Rightarrow> format_value v) \<longrightarrow>
      get_export_file_path ds file_path target_root =
        target_root @
        [(case SeriesNumber ds of None \<Rightarrow> ''Ser'' | Some v \<Rightarrow> format_value v) @ ''_'' @
         (case InstanceNumber ds of None \<Rightarrow> ''Ins'' | Some v \<Rightarrow> format_value v) @ ''.bmp'']) \<and>
   (SeriesNumber ds = None \<and> InstanceNumber ds = None \<longrightarrow>
      get_export_file_path ds file_path target_root = target_root @ [''Ser_Ins.bmp'']) \<and>
   (\<forall>sv iv. SeriesNumber ds = Some sv \<and> InstanceNumber ds = Some iv \<and>
      format_value sv = ''3'' \<and> format_value iv = ''12'' \<longrightarrow>
      get_export_file_path ds file_path target_root = target_root @ [''3_12.bmp'']) \<and>
   format_value (IS 3 None) = ''3'' \<and> format_value (IS 12 None) = ''12'' \<and>
   format_value (IS 3 (Some ''3'')) = ''3'' \<and> format_value (IS 12 (Some ''12'')) = ''12''"
proof (intro conjI allI impI)
  show "get_export_file_path ds file_path target_root =
     path_join target_root
       (Path ((case SeriesNumber ds of None \<Rightarrow> ''Ser'' | Some v \<Rightarrow> format_value v) @ ''_'' @
              (case InstanceNumber ds of None \<Rightarrow> ''Ins'' | Some v \<Rightarrow> format_value v) @ ''.bmp''))"
    by (rule export_file_path_printed)
next
  assume "CHR ''/'' \<notin> set (case SeriesNumber ds of None \<Rightarrow> ''Ser'' | Some v \<Rightarrow> format_value v) \<and>
    CHR ''/'' \<notin> set (case InstanceNumber ds of None \<Rightarrow> ''Ins'' | Some v \<Rightarrow> format_value v)"
  then show "get_export_file_path ds file_path target_root =
        target_root @
        [(case SeriesNumber ds of None \<Rightarrow> ''Ser'' | Some v \<Rightarrow> format_value v) @ ''_'' @
         (case InstanceNumber ds of None \<Rightarrow> ''Ins'' | Some v \<Rightarrow> format_value v) @ ''.bmp'']"
    by (intro export_file_path_parts) simp_all
next
  assume a: "SeriesNumber ds = None \<and> InstanceNumber ds = None"
  have "get_export_file_path ds file_path target_root =
          target_root @ [''Ser'' @ ''_'' @ ''Ins'' @ ''.bmp'']"
    using export_file_path_parts [of ds file_path target_root] a by simp
  then show "get_export_file_path ds file_path target_root = target_root @ [''Ser_Ins.bmp'']"
    by simp
next
  fix sv iv
  assume a: "SeriesNumber ds = Some sv \<and> InstanceNumber ds = Some iv \<and>
      format_value sv = ''3'' \<and> format_value iv = ''12''"
  have "get_export_file_path ds file_path target_root =
          target_root @ [''3'' @ ''_'' @ ''12'' @ ''.bmp'']"
    using export_file_path_parts [of ds file_path target_root] a by simp
  then show "get_export_file_path ds file_path target_root = target_root @ [''3_12.bmp'']"
    by simp
qed (simp_all add: str_int_3 str_int_12)

theorem export_path_from_series_and_instance_witness:
  "get_export_file_path blank_dataset [''scan'', ''a.dcm''] [''out''] = [''out'', ''Ser_Ins.bmp''] \<and>
   get_export_file_path
     (blank_dataset\<lparr>SeriesNumber := Some (IS 3 None), InstanceNumber := Some (IS 12 (Some ''12''))\<rparr>)
     [''scan'', ''a.dcm''] [''out''] = [''out'', ''3_12.bmp''] \<and>
   get_export_file_path
     (blank_dataset\<lparr>SeriesNumber := Some (IS 3 (Some ''003'')), InstanceNumber := Some EmptyValue\<rparr>)
     [''scan'', ''a.dcm''] [''out''] = [''out'', ''003_None.bmp''] \<and>
   path_str [''out'', ''3_12.bmp''] = ''out/3_12.bmp''"
proof -
  note t = export_path_from_series_and_instance [THEN conjunct2, THEN conjunct1]
  have a: "get_export_file_path blank_dataset [''scan'', ''a.dcm''] [''out''] =
             [''out'', ''Ser_Ins.bmp'']"
    using t [of blank_dataset "[''scan'', ''a.dcm'']" "[''out'']"]
    by (simp add: blank_dataset_def)
  have b: "get_export_file_path
     (blank_dataset\<lparr>SeriesNumber := Some (IS 3 None), InstanceNumber := Some (IS 12 (Some ''12''))\<rparr>)
     [''scan'', ''a.dcm''] [''out''] = [''out'', ''3_12.bmp'']"
    using t [of "blank_dataset\<lparr>SeriesNumber := Some (IS 3 None),
                               InstanceNumber := Some (IS 12 (Some ''12''))\<rparr>"
                "[''scan'', ''a.dcm'']" "[''out'']"]
    by (simp add: blank_dataset_def str_int_3)
  have c: "get_export_file_path
     (blank_dataset\<lparr>SeriesNumber := Some (IS 3 (Some ''003'')), InstanceNumber := Some EmptyValue\<rparr>)
     [''scan'', ''a.dcm''] [''out''] = [''out'', ''003_None.bmp'']"
    using t [of "blank_dataset\<lparr>SeriesNumber := Some (IS 3 (Some ''003'')),
                               InstanceNumber := Some EmptyValue\<rparr>"
                "[''scan'', ''a.dcm'']" "[''out'']"]
    by (simp add: blank_dataset_def)
  have d: "path_str [''out'', ''3_12.bmp''] = ''out/3_12.bmp''" by (simp add: path_str_def)
  from a b c d show ?thesis by simp
qed

text \<open>
  As the spec states it, the claim fails on values the reader returns: SeriesNumber 3 and
  InstanceNumber 12 read from the texts \<open>003\<close> and \<open>012\<close> give \<open>003_012.bmp\<close>, not
  \<open>3_12.bmp\<close>, and a SeriesNumber that is present with an empty value gives
  \<open>None_12.bmp\<close>, not \<open>Ser_12.bmp\<close>.
\<close>

theorem export_path_original_text_counterexample:
  "get_export_file_path
     (blank_dataset\<lparr>SeriesNumber := Some (IS 3 (Some ''003'')),
                     InstanceNumber := Some (IS 12 (Some ''012''))\<rparr>)
     [''scan'', ''a.dcm''] [''out''] = [''out'', ''003_012.bmp''] \<and>
   [''out'', ''003_012.bmp''] \<noteq> [''out'', ''3_12.bmp''] \<and>
   get_export_file_path
     (blank_dataset\<lparr>SeriesNumber := Some EmptyValue, InstanceNumber := Some (IS 12 (Some ''12''))\<rparr>)
     [''scan'', ''a.dcm''] [''out''] = [''out'', ''None_12.bmp''] \<and>
   [''out'', ''None_12.bmp''] \<noteq> [''out'', ''Ser_12.bmp'']"
proof -
  have a: "get_export_file_path
     (blank_dataset\<lparr>SeriesNumber := Some (IS 3 (Some ''003'')),
                     InstanceNumber := Some (IS 12 (Some ''012''))\<rparr>)
     [''scan'', ''a.dcm''] [''out''] = [''out''] @ [''003'' @ ''_'' @ ''012'' @ ''.bmp'']"
    using export_file_path_parts
      [of "blank_dataset\<lparr>SeriesNumber := Some (IS 3 (Some ''003'')),
                          InstanceNumber := Some (IS 12 (Some ''012''))\<rparr>"
          "[''scan'', ''a.dcm'']" "[''out'']"]
    by (simp add: blank_dataset_def)
  have b: "get_export_file_path
     (blank_dataset\<lparr>SeriesNumber := Some EmptyValue, InstanceNumber := Some (IS 12 (Some ''12''))\<rparr>)
     [''scan'', ''a.dcm''] [''out''] = [''out''] @ [''None'' @ ''_'' @ ''12'' @ ''.bmp'']"
    using export_file_path_parts
      [of "blank_dataset\<lparr>SeriesNumber := Some EmptyValue, InstanceNumber := Some (IS 12 (Some ''12''))\<rparr>"
          "[''scan'', ''a.dcm'']" "[''out'']"]
    by (simp add: blank_dataset_def)
  from a b show ?thesis by simp
qed

text \<open>
  Claim C10. The export path depends only on the dataset's SeriesNumber and
  InstanceNumber and on the target root: two datasets that agree on both numbers get the
  same path under the same root, whatever the paths of their source files.
\<close>

theorem export_path_ignores_source_file:
  "SeriesNumber ds1 = SeriesNumber ds2 \<and> InstanceNumber ds1 = InstanceNumber ds2 \<longrightarrow>
     get_export_file_path ds1 file_path1 target_root =
     get_export_file_path ds2 file_path2 target_root"
  by (simp add: export_file_path_printed)

theorem export_path_ignores_source_file_witness:
  "get_export_file_path (blank_dataset\<lparr>SeriesNumber := Some (IS 3 (Some ''003''))\<rparr>)
     [''scan'', ''a.dcm''] [''out''] =
   get_export_file_path
     (blank_dataset\<lparr>SeriesNumber := Some (IS 3 (Some ''003'')), SOPClassUID := Some ''1.2''\<rparr>)
     [''other'', ''dir'', ''b.dcm''] [''out'']"
  using export_path_ignores_source_file
    [of "blank_dataset\<lparr>SeriesNumber := Some (IS 3 (Some ''003''))\<rparr>"
        "blank_dataset\<lparr>SeriesNumber := Some (IS 3 (Some ''003'')), SOPClassUID := Some ''1.2''\<rparr>"
        "[''scan'', ''a.dcm'']" "[''out'']" "[''other'', ''dir'', ''b.dcm'']"]
  by (simp add: blank_dataset_def)

section \<open>The compatibility gate and the skip messages\<close>

lemma gate_skip_message:
  assumes "dcmread env file_path = Inr ds" and "is_unsupported ds = Inr (Some name)" and "name \<noteq> []"
  shows "ds_to_file env fs file_path target_root =
           (RStr (path_str file_path @ '' cannot be converted.\<newline>'' @ name @
                  '' is currently not supported''), fs)"
  using assms by (simp add: ds_to_file_def ds_to_file_body_def truthy_def)

text \<open>
  Claim C6. The gate returns the name \<open>Encapsulated PDF Storage\<close> for the SOPClassUID
  1.2.840.10008.5.1.4.1.1.104.1 and \<open>Key Object Selection Document\<close> for
  1.2.840.10008.5.1.4.1.1.88.59, and takes every other SOPClassUID as supported. It is a
  function of the dataset alone, and a file read as a dataset with the first UID is
  skipped with a message that contains \<open>Encapsulated PDF\<close>, the file system unchanged.
\<close>

theorem gate_names_unsupported_classes:
  "(SOPClassUID ds = Some ''1.2.840.10008.5.1.4.1.1.104.1'' \<longrightarrow>
      is_unsupported ds = Inr (Some ''Encapsulated PDF Storage'')) \<and>
   (SOPClassUID ds = Some ''1.2.840.10008.5.1.4.1.1.88.59'' \<longrightarrow>
      is_unsupported ds = Inr (Some ''Key Object Selection Document'')) \<and>
   (\<forall>uid. SOPClassUID ds = Some uid \<and> uid \<noteq> ''1.2.840.10008.5.1.4.1.1.104.1'' \<and>
      uid \<noteq> ''1.2.840.10008.5.1.4.1.1.88.59'' \<longrightarrow> is_unsupported ds = Inr None) \<and>
   (dcmread env file_path = Inr ds \<and> SOPClassUID ds = Some ''1.2.840.10008.5.1.4.1.1.104.1'' \<longrightarrow>
      (\<exists>reason. ds_to_file env fs file_path target_root = (RStr reason, fs) \<and>
         sublist ''Encapsulated PDF'' reason))"
proof (intro conjI allI impI)
  assume "SOPClassUID ds = Some ''1.2.840.10008.5.1.4.1.1.104.1''"
  then show "is_unsupported ds = Inr (Some ''Encapsulated PDF Storage'')"
    by (simp add: is_unsupported_def getattr_def)
next
  assume "SOPClassUID ds = Some ''1.2.840.10008.5.1.4.1.1.88.59''"
  then show "is_unsupported ds = Inr (Some ''Key Object Selection Document'')"
    by (simp add: is_unsupported_def getattr_def)
next
  fix uid
  assume "SOPClassUID ds = Some uid \<and> uid \<noteq> ''1.2.840.10008.5.1.4.1.1.104.1'' \<and>
      uid \<noteq> ''1.2.840.10008.5.1.4.1.1.88.59''"
  then show "is_unsupported ds = Inr None"
    by (simp add: is_unsupported_def getattr_def)
next
  assume a: "dcmread env file_path = Inr ds \<and> SOPClassUID ds = Some ''1.2.840.10008.5.1.4.1.1.104.1''"
  then have u: "is_unsupported ds = Inr (Some ''Encapsulated PDF Storage'')"
    by (simp add: is_unsupported_def getattr_def)
  let ?pre = "path_str file_path @ '' cannot be converted.\<newline>''"
  let ?post = "'' Storage is currently not supported''"
  let ?msg = "?pre @ ''Encapsulated PDF Storage'' @ '' is currently not supported''"
  have r: "ds_to_file env fs file_path target_root = (RStr ?msg, fs)"
    using a u gate_skip_message [of env file_path ds "''Encapsulated PDF Storage''" fs target_root]
    by simp
  have "?msg = ?pre @ ''Encapsulated PDF'' @ ?post" by simp
  then have "sublist ''Encapsulated PDF'' ?msg" unfolding sublist_def by blast
  with r show "\<exists>reason. ds_to_file env fs file_path target_root = (RStr reason, fs) \<and>
         sublist ''Encapsulated PDF'' reason" by blast
qed

theorem gate_names_unsupported_classes_witness:
  "is_unsupported (blank_dataset\<lparr>SOPClassUID := Some ''1.2.840.10008.5.1.4.1.1.104.1''\<rparr>) =
     Inr (Some ''Encapsulated PDF Storage'') \<and>
   (\<exists>reason.
      ds_to_file
        (sim_env\<lparr>dcmread := \<lambda>p. Inr (blank_dataset\<lparr>SOPClassUID := Some ''1.2.840.10008.5.1.4.1.1.104.1''\<rparr>)\<rparr>)
        [] [''scan'', ''a.dcm''] [''out''] = (RStr reason, []) \<and>
      sublist ''Encapsulated PDF'' reason)"
  using gate_names_unsupported_classes
    [of "blank_dataset\<lparr>SOPClassUID := Some ''1.2.840.10008.5.1.4.1.1.104.1''\<rparr>"
        "sim_env\<lparr>dcmread := \<lambda>p. Inr (blank_dataset\<lparr>SOPClassUID := Some ''1.2.840.10008.5.1.4.1.1.104.1''\<rparr>)\<rparr>"
        "[''scan'', ''a.dcm'']" "[]" "[''out'']"]
  by (simp add: blank_dataset_def sim_env_def)

section \<open>Multiframe arrays\<close>

lemma multiframe_skip_message:
  assumes "dcmread env file_path = Inr ds" and "is_unsupported ds = Inr None"
    and "pixel_array ds = Inr a" and "is_multiframe a"
  shows "ds_to_file env fs file_path target_root =
           (RStr (path_str file_path @ '' cannot be converted.\<newline>'' @
                  ''Multiframe images are currently not supported''), fs)"
  using assms by (simp add: ds_to_file_def ds_to_file_body_def truthy_def)

lemma gate_error_message:
  assumes "dcmread env file_path = Inr ds" and "is_unsupported ds = Inl e"
  shows "ds_to_file env fs file_path target_root =
           (RStr (''Error converting '' @ path_str file_path @ '': '' @ str_error e), fs)"
  using assms by (simp add: ds_to_file_def ds_to_file_body_def)

lemma unsupported_name_not_empty: "is_unsupported ds = Inr (Some name) \<Longrightarrow> name \<noteq> []"
  by (auto simp: is_unsupported_def split: sum.splits if_splits)

text \<open>
  Claim C3, as the code has it. Take a file that is read as a dataset whose raw pixel
  array has three dimensions, the last not 3. When the dataset passes the gate
  (SOPClassUID present and not an unsupported class), the task returns the message
  \<open>{file_path} cannot be converted. Multiframe images are currently not supported\<close>, which
  contains \<open>Multiframe\<close> with a capital M, for any behaviour of the lookup tables and the
  encoder, which are not reached. The gate runs before the test of the shape: without
  SOPClassUID the task returns the error message of the missing attribute, and for an
  unsupported class the skip message of that class. In every case the task returns a
  message, raises nothing and leaves the file system unchanged.
\<close>

theorem multiframe_is_skipped:
  assumes "dcmread env file_path = Inr ds"
    and "pixel_array ds = Inr a" and "length (shape a) = 3" and "shape a ! 2 \<noteq> 3"
  shows "(is_unsupported ds = Inr None \<longrightarrow>
            ds_to_file env fs file_path target_root =
              (RStr (path_str file_path @ '' cannot be converted.\<newline>'' @
                     ''Multiframe images are currently not supported''), fs) \<and>
            sublist ''Multiframe''
              (path_str file_path @ '' cannot be converted.\<newline>'' @
               ''Multiframe images are currently not supported'')) \<and>
         (\<forall>e. is_unsupported ds = Inl e \<longrightarrow>
            ds_to_file env fs file_path target_root =
              (RStr (''Error converting '' @ path_str file_path @ '': '' @ str_error e), fs)) \<and>
         (\<forall>name. is_unsupported ds = Inr (Some name) \<longrightarrow>
            ds_to_file env fs file_path target_root =
              (RStr (path_str file_path @ '' cannot be converted.\<newline>'' @ name @
                     '' is currently not supported''), fs)) \<and>
         (\<exists>reason. ds_to_file env fs file_path target_root = (RStr reason, fs))"
proof -
  let ?pre = "path_str file_path @ '' cannot be converted.\<newline>''"
  let ?msg = "path_str file_path @ '' cannot be converted.\<newline>'' @
                    ''Multiframe images are currently not supported''"
  have m: "is_multiframe a" using assms(3,4) by (simp add: is_multiframe_def)
  have "?msg = ?pre @ ''Multiframe'' @ '' images are currently not supported''" by simp
  then have s1: "sublist ''Multiframe'' ?msg" unfolding sublist_def by blast
  have c1: "ds_to_file env fs file_path target_root = (RStr ?msg, fs)"
    if "is_unsupported ds = Inr None"
    using assms(1) that assms(2) m by (rule multiframe_skip_message)
  have c2: "ds_to_file env fs file_path target_root =
              (RStr (''Error converting '' @ path_str file_path @ '': '' @ str_error e), fs)"
    if "is_unsupported ds = Inl e" for e
    using assms(1) that by (rule gate_error_message)
  have c3: "ds_to_file env fs file_path target_root =
              (RStr (path_str file_path @ '' cannot be converted.\<newline>'' @ name @
                     '' is currently not supported''), fs)"
    if "is_unsupported ds = Inr (Some name)" for name
    using assms(1) that unsupported_name_not_empty [OF that] by (rule gate_skip_message)
  have c4: "\<exists>reason. ds_to_file env fs file_path target_root = (RStr reason, fs)"
  proof (cases "is_unsupported ds")
    case (Inl e)
    then show ?thesis using c2 by blast
  next
    case (Inr u)
    then show ?thesis using c1 c3 by (cases u) blast+
  qed
  from s1 c1 c2 c3 c4 show ?thesis by blast
qed

theorem multiframe_is_skipped_witness:
  "ds_to_file
     (sim_env\<lparr>dcmread := \<lambda>p. Inr volume_dataset,
              apply_modality_lut := \<lambda>a ds. Inl (External ''no modality LUT''),
              apply_voi_lut := \<lambda>a ds. Inl (External ''no VOI LUT'')\<rparr>)
     [] [''scan'', ''a.dcm''] [''out''] =
     (RStr ''scan/a.dcm cannot be converted.\<newline>Multiframe images are currently not supported'', []) \<and>
   sublist ''Multiframe''
     ''scan/a.dcm cannot be converted.\<newline>Multiframe images are currently not supported''"
  using multiframe_is_skipped
    [of "sim_env\<lparr>dcmread := \<lambda>p. Inr volume_dataset,
                apply_modality_lut := \<lambda>a ds. Inl (External ''no modality LUT''),
                apply_voi_lut := \<lambda>a ds. Inl (External ''no VOI LUT'')\<rparr>"
        "[''scan'', ''a.dcm'']" volume_dataset
        "\<lparr>shape = [2, 2, 5], data = replicate 20 0\<rparr>" "[]" "[''out'']", THEN conjunct1]
  by (simp add: sim_env_def volume_dataset_def blank_dataset_def is_unsupported_def getattr_def
      path_str_def)

text \<open>
  As the spec states it, the claim fails in two ways. The message of a multiframe array does not
  contain the lowercase word \<open>multiframe\<close>; and a file with such an array but without
  SOPClassUID is not skipped as multiframe, it is reported as an error by the gate.
\<close>

lemma multiframe_word_absent:
  "\<not> sublist ''multiframe''
       ''scan/a.dcm cannot be converted.\<newline>Multiframe images are currently not supported''"
  by code_simp

theorem multiframe_counterexample:
  "ds_to_file (sim_env\<lparr>dcmread := \<lambda>p. Inr volume_dataset\<rparr>) [] [''scan'', ''a.dcm''] [''out''] =
     (RStr ''scan/a.dcm cannot be converted.\<newline>Multiframe images are currently not supported'', []) \<and>
   \<not> sublist ''multiframe''
       ''scan/a.dcm cannot be converted.\<newline>Multiframe images are currently not supported'' \<and>
   pixel_array (volume_dataset\<lparr>SOPClassUID := None\<rparr>) =
     Inr \<lparr>shape = [2, 2, 5], data = replicate 20 0\<rparr> \<and>
   ds_to_file (sim_env\<lparr>dcmread := \<lambda>p. Inr (volume_dataset\<lparr>SOPClassUID := None\<rparr>)\<rparr>) []
       [''scan'', ''a.dcm''] [''out''] =
     (RStr ''Error converting scan/a.dcm: Dataset object has no attribute SOPClassUID'', [])"
proof -
  have a: "ds_to_file (sim_env\<lparr>dcmread := \<lambda>p. Inr volume_dataset\<rparr>) [] [''scan'', ''a.dcm''] [''out''] =
     (RStr ''scan/a.dcm cannot be converted.\<newline>Multiframe images are currently not supported'', [])"
    by (simp add: ds_to_file_def ds_to_file_body_def sim_env_def volume_dataset_def
        blank_dataset_def is_unsupported_def getattr_def truthy_def is_multiframe_def path_str_def)
  have b: "pixel_array (volume_dataset\<lparr>SOPClassUID := None\<rparr>) =
     Inr \<lparr>shape = [2, 2, 5], data = replicate 20 0\<rparr>"
    by (simp add: volume_dataset_def blank_dataset_def)
  have c: "ds_to_file (sim_env\<lparr>dcmread := \<lambda>p. Inr (volume_dataset\<lparr>SOPClassUID := None\<rparr>)\<rparr>) []
       [''scan'', ''a.dcm''] [''out''] =
     (RStr ''Error converting scan/a.dcm: Dataset object has no attribute SOPClassUID'', [])"
    by (simp add: ds_to_file_def ds_to_file_body_def sim_env_def volume_dataset_def
        blank_dataset_def is_unsupported_def getattr_def path_str_def)
  from a multiframe_word_absent b c show ?thesis by (intro conjI)
qed

section \<open>Failures of one file and the result of the batch\<close>

lemma convert_all_length: "length (fst (convert_all env fs fnames target_root)) = length fnames"
proof (induction fnames arbitrary: fs)
  case Nil
  show ?case by simp
next
  case (Cons f rest)
  obtain r fs1 where d: "ds_to_file env fs f target_root = (r, fs1)"
    by (cases "ds_to_file env fs f target_root")
  obtain rs fs2 where c: "convert_all env fs1 rest target_root = (rs, fs2)"
    by (cases "convert_all env fs1 rest target_root")
  have "length rs = length rest" using Cons.IH [of fs1] c by simp
  then show ?case using d c by simp
qed

lemma convert_all_step:
  "fst (convert_all env fs (file_path # rest) target_root) =
     fst (ds_to_file env fs file_path target_root) #
     fst (convert_all env (snd (ds_to_file env fs file_path target_root)) rest target_root)"
  by (simp split: prod.splits)

lemma ds_to_file_reports_exception:
  assumes "fst (ds_to_file_body env fs file_path target_root) = Inl e"
  shows "fst (ds_to_file env fs file_path target_root) =
           RStr (''Error converting '' @ path_str file_path @ '': '' @ str_error e)"
proof -
  obtain r fs1 where b: "ds_to_file_body env fs file_path target_root = (r, fs1)"
    by (cases "ds_to_file_body env fs file_path target_root")
  with assms have "r = Inl e" by simp
  with b show ?thesis by (simp add: ds_to_file_def)
qed

text \<open>Where the body raises: each step of the sequence that can fail.\<close>

lemma body_raises_decode:
  "dcmread env file_path = Inl e \<Longrightarrow> ds_to_file_body env fs file_path target_root = (Inl e, fs)"
  by (simp add: ds_to_file_body_def)

lemma body_raises_gate:
  "dcmread env file_path = Inr ds \<Longrightarrow> is_unsupported ds = Inl e \<Longrightarrow>
   ds_to_file_body env fs file_path target_root = (Inl e, fs)"
  by (simp add: ds_to_file_body_def)

lemma body_raises_pixel_loading:
  "dcmread env file_path = Inr ds \<Longrightarrow> is_unsupported ds = Inr None \<Longrightarrow>
   pixel_array ds = Inl e \<Longrightarrow> ds_to_file_body env fs file_path target_root = (Inl e, fs)"
  by (simp add: ds_to_file_body_def truthy_def)

lemma body_raises_pixel_process:
  "dcmread env file_path = Inr ds \<Longrightarrow> is_unsupported ds = Inr None \<Longrightarrow>
   pixel_array ds = Inr a \<Longrightarrow> \<not> is_multiframe a \<Longrightarrow> pixel_process env ds a = Inl e \<Longrightarrow>
   ds_to_file_body env fs file_path target_root = (Inl e, fs)"
  by (simp add: ds_to_file_body_def truthy_def)

lemma body_raises_color:
  "dcmread env file_path = Inr ds \<Longrightarrow> is_unsupported ds = Inr None \<Longrightarrow>
   pixel_array ds = Inr a \<Longrightarrow> \<not> is_multiframe a \<Longrightarrow> pixel_process env ds a = Inr p \<Longrightarrow>
   handle_color ds p = Inl e \<Longrightarrow> ds_to_file_body env fs file_path target_root = (Inl e, fs)"
  by (simp add: ds_to_file_body_def truthy_def)

lemma body_raises_mkdir:
  "dcmread env file_path = Inr ds \<Longrightarrow> is_unsupported ds = Inr None \<Longrightarrow>
   pixel_array ds = Inr a \<Longrightarrow> \<not> is_multiframe a \<Longrightarrow> pixel_process env ds a = Inr p \<Longrightarrow>
   handle_color ds p = Inr img \<Longrightarrow>
   mkdir env fs (parent (get_export_file_path ds file_path target_root)) = (Some e, fs1) \<Longrightarrow>
   ds_to_file_body env fs file_path target_root = (Inl e, fs1)"
  by (simp add: ds_to_file_body_def truthy_def)

lemma body_raises_imwrite:
  "dcmread env file_path = Inr ds \<Longrightarrow> is_unsupported ds = Inr None \<Longrightarrow>
   pixel_array ds = Inr a \<Longrightarrow> \<not> is_multiframe a \<Longrightarrow> pixel_process env ds a = Inr p \<Longrightarrow>
   handle_color ds p = Inr img \<Longrightarrow>
   mkdir env fs (parent (get_export_file_path ds file_path target_root)) = (None, fs1) \<Longrightarrow>
   imwrite env fs1 (get_export_file_path ds file_path target_root) img = (Some e, fs2) \<Longrightarrow>
   ds_to_file_body env fs file_path target_root = (Inl e, fs2)"
  by (simp add: ds_to_file_body_def truthy_def)

text \<open>
  Claim C8. Whatever exception the sequence of one file raises (decoding, the gate,
  loading the pixels, the pixel pipeline, the color step, creating the directory, writing),
  the task returns the message \<open>Error converting {file_path}: {cause}\<close>, which contains
  the file path and the cause; the task itself always returns a value, so the batch has
  one result for every file and goes on with the remaining files after any result.
\<close>

theorem exceptions_become_messages:
  "(fst (ds_to_file_body env fs file_path target_root) = Inl e \<longrightarrow>
      (\<exists>reason. fst (ds_to_file env fs file_path target_root) = RStr reason \<and>
         reason = ''Error converting '' @ path_str file_path @ '': '' @ str_error e \<and>
         sublist (path_str file_path) reason \<and> sublist (str_error e) reason)) \<and>
   length (fst (convert_all env fs fnames target_root)) = length fnames \<and>
   fst (convert_all env fs (file_path # fnames) target_root) =
     fst (ds_to_file env fs file_path target_root) #
     fst (convert_all env (snd (ds_to_file env fs file_path target_root)) fnames target_root)"
proof (intro conjI impI)
  assume a: "fst (ds_to_file_body env fs file_path target_root) = Inl e"
  let ?msg = "''Error converting '' @ path_str file_path @ '': '' @ str_error e"
  have r: "fst (ds_to_file env fs file_path target_root) = RStr ?msg"
    using a by (rule ds_to_file_reports_exception)
  have s1: "sublist (path_str file_path) ?msg" unfolding sublist_def by blast
  have "?msg = (''Error converting '' @ path_str file_path @ '': '') @ str_error e @ []"
    by simp
  then have s2: "sublist (str_error e) ?msg" unfolding sublist_def by blast
  from r s1 s2 show "\<exists>reason. fst (ds_to_file env fs file_path target_root) = RStr reason \<and>
         reason = ''Error converting '' @ path_str file_path @ '': '' @ str_error e \<and>
         sublist (path_str file_path) reason \<and> sublist (str_error e) reason" by blast
next
  show "length (fst (convert_all env fs fnames target_root)) = length fnames"
    by (rule convert_all_length)
next
  show "fst (convert_all env fs (file_path # fnames) target_root) =
     fst (ds_to_file env fs file_path target_root) #
     fst (convert_all env (snd (ds_to_file env fs file_path target_root)) fnames target_root)"
    by (rule convert_all_step)
qed

lemma gray_pixels:
  "pixel_process two_file_env gray_dataset \<lparr>shape = [2, 3], data = [0, 100, 150, 200, 300, 175]\<rparr> =
     Inr \<lparr>shape = [2, 3], data = [0, 0, 127, 255, 255, 191]\<rparr>"
  by (simp add: pixel_process_def two_file_env_def sim_env_def gray_dataset_def blank_dataset_def
      modality_lut_def voi_lut_def first_value_def get_LUT_value_LINEAR_EXACT_def amin_def amax_def
      piecewise_def assign_def presentation_lut_def fdiv_def handle_monochrome1_def
      astype_uint8_def to_uint8_def)

lemma gray_file_converts:
  "ds_to_file two_file_env fs [''scan'', ''b.DCM''] [''out''] =
     (RTrue, fs @ [([''out'', ''3_12.bmp''], \<lparr>shape = [2, 3], data = [0, 0, 127, 255, 255, 191]\<rparr>)])"
proof -
  have d: "dcmread two_file_env [''scan'', ''b.DCM''] = Inr gray_dataset"
    by (simp add: two_file_env_def sim_env_def)
  have u: "is_unsupported gray_dataset = Inr None"
    by (simp add: is_unsupported_def getattr_def gray_dataset_def blank_dataset_def)
  have p: "pixel_array gray_dataset = Inr \<lparr>shape = [2, 3], data = [0, 100, 150, 200, 300, 175]\<rparr>"
    by (simp add: gray_dataset_def blank_dataset_def)
  have m: "\<not> is_multiframe \<lparr>shape = [2, 3], data = [0, 100, 150, 200, 300, 175 :: real]\<rparr>"
    by (simp add: is_multiframe_def)
  have c: "handle_color gray_dataset \<lparr>shape = [2, 3], data = [0, 0, 127, 255, 255, 191 :: 8 word]\<rparr> =
             Inr \<lparr>shape = [2, 3], data = [0, 0, 127, 255, 255, 191]\<rparr>"
    by (simp add: handle_color_def gray_dataset_def blank_dataset_def)
  have e: "get_export_file_path gray_dataset [''scan'', ''b.DCM''] [''out''] = [''out'', ''3_12.bmp'']"
    using export_file_path_parts [of gray_dataset "[''scan'', ''b.DCM'']" "[''out'']"]
    by (simp add: gray_dataset_def blank_dataset_def)
  have w: "mkdir two_file_env fs (parent [''out'', ''3_12.bmp'']) = (None, fs)"
    "imwrite two_file_env fs [''out'', ''3_12.bmp''] \<lparr>shape = [2, 3], data = [0, 0, 127, 255, 255, 191]\<rparr> =
       (None, fs @ [([''out'', ''3_12.bmp''], \<lparr>shape = [2, 3], data = [0, 0, 127, 255, 255, 191]\<rparr>)])"
    by (simp_all add: two_file_env_def sim_env_def)
  show ?thesis
    by (simp add: ds_to_file_def ds_to_file_body_def d u p m c e w gray_pixels truthy_def)
qed

lemma unreadable_file_fails:
  "ds_to_file two_file_env fs [''scan'', ''a.dcm''] [''out''] =
     (RStr ''Error converting scan/a.dcm: cannot read file'', fs)"
  by (simp add: ds_to_file_def ds_to_file_body_def two_file_env_def sim_env_def path_str_def)

lemma scan_discovery:
  "get_root_get_dicom_file_list two_file_env fs (One [''scan'']) (Some [''out'']) =
     Inr ([''out''], [[''scan'', ''a.dcm''], [''scan'', ''b.DCM'']])"
  by code_simp

theorem exceptions_become_messages_witness:
  "fst (ds_to_file_body two_file_env [] [''scan'', ''a.dcm''] [''out'']) =
     Inl (External ''cannot read file'') \<and>
   (\<exists>reason. fst (ds_to_file two_file_env [] [''scan'', ''a.dcm''] [''out'']) = RStr reason \<and>
      reason = ''Error converting scan/a.dcm: cannot read file'' \<and>
      sublist ''scan/a.dcm'' reason \<and> sublist ''cannot read file'' reason) \<and>
   fst (convert_all two_file_env [] [[''scan'', ''a.dcm''], [''scan'', ''b.DCM'']] [''out'']) =
     [RStr ''Error converting scan/a.dcm: cannot read file'', RTrue]"
proof -
  have b: "fst (ds_to_file_body two_file_env [] [''scan'', ''a.dcm''] [''out'']) =
             Inl (External ''cannot read file'')"
    by (simp add: body_raises_decode two_file_env_def sim_env_def)
  have p: "path_str [''scan'', ''a.dcm''] = ''scan/a.dcm''"
    by (simp add: path_str_def)
  show ?thesis
    using b exceptions_become_messages
      [of two_file_env "[]" "[''scan'', ''a.dcm'']" "[''out'']" "External ''cannot read file''"
          "[[''scan'', ''b.DCM'']]"]
    by (simp add: p gray_file_converts unreadable_file_fails)
qed

lemma some_true_iff: "(filter (\<lambda>r. r = RTrue) rs \<noteq> []) = (RTrue \<in> set rs)"
  by (induction rs) auto

text \<open>
  Claim C5. Once the files are discovered, the batch returns true exactly when at least
  one file's task returned \<open>True\<close>; with no file discovered it returns false, raises
  nothing and leaves the file system as it was.
\<close>

theorem batch_flag:
  "(get_root_get_dicom_file_list env fs origin target_root = Inr (root_folder, fnames) \<longrightarrow>
      fst (dicom_convertor env fs origin target_root multiprocessing) =
        Inr (RTrue \<in> set (fst (convert_all env fs fnames root_folder)))) \<and>
   (get_root_get_dicom_file_list env fs origin target_root = Inr (root_folder, []) \<longrightarrow>
      dicom_convertor env fs origin target_root multiprocessing = (Inr False, fs))"
proof (intro conjI impI)
  assume g: "get_root_get_dicom_file_list env fs origin target_root = Inr (root_folder, fnames)"
  obtain rs fs1 where c: "convert_all env fs fnames root_folder = (rs, fs1)"
    by (cases "convert_all env fs fnames root_folder")
  show "fst (dicom_convertor env fs origin target_root multiprocessing) =
        Inr (RTrue \<in> set (fst (convert_all env fs fnames root_folder)))"
  proof (cases "fnames = []")
    case True
    then show ?thesis using g by (simp add: dicom_convertor_def)
  next
    case False
    then show ?thesis using g c by (simp add: dicom_convertor_def some_true_iff)
  qed
next
  assume "get_root_get_dicom_file_list env fs origin target_root = Inr (root_folder, [])"
  then show "dicom_convertor env fs origin target_root multiprocessing = (Inr False, fs)"
    by (simp add: dicom_convertor_def)
qed

lemma empty_dir_discovery:
  "get_root_get_dicom_file_list empty_dir_env fs (One [''scan'']) None = Inr ([], [])"
  by code_simp

lemma two_file_batch:
  "convert_all two_file_env [] [[''scan'', ''a.dcm''], [''scan'', ''b.DCM'']] [''out''] =
     ([RStr ''Error converting scan/a.dcm: cannot read file'', RTrue],
      [([''out'', ''3_12.bmp''], \<lparr>shape = [2, 3], data = [0, 0, 127, 255, 255, 191]\<rparr>)])"
  by (simp add: gray_file_converts unreadable_file_fails)

theorem batch_flag_witness:
  "dicom_convertor two_file_env [] (One [''scan'']) (Some [''out'']) True =
     (Inr True, [([''out'', ''3_12.bmp''], \<lparr>shape = [2, 3], data = [0, 0, 127, 255, 255, 191]\<rparr>)]) \<and>
   dicom_convertor empty_dir_env [] (One [''scan'']) None True = (Inr False, [])"
proof -
  have a: "fst (dicom_convertor two_file_env [] (One [''scan'']) (Some [''out'']) True) = Inr True"
    using batch_flag [of two_file_env "[]" "One [''scan'']" "Some [''out'']" "[''out'']"
        "[[''scan'', ''a.dcm''], [''scan'', ''b.DCM'']]" True]
    by (simp only: scan_discovery two_file_batch) simp
  have b: "snd (dicom_convertor two_file_env [] (One [''scan'']) (Some [''out'']) True) =
             [([''out'', ''3_12.bmp''], \<lparr>shape = [2, 3], data = [0, 0, 127, 255, 255, 191]\<rparr>)]"
    by (simp add: dicom_convertor_def scan_discovery gray_file_converts unreadable_file_fails)
  have c: "dicom_convertor empty_dir_env [] (One [''scan'']) None True = (Inr False, [])"
    using batch_flag [of empty_dir_env "[]" "One [''scan'']" None "[]" "[]" True]
    by (simp add: empty_dir_discovery)
  from a b c show ?thesis by (simp add: prod_eq_iff)
qed

section \<open>The linear-exact windowing\<close>

lemma amin_Min:
  assumes "xs \<noteq> []"
  shows "amin xs = Inr (Min (set xs))"
proof (cases xs)
  case Nil
  with assms show ?thesis by simp
next
  case (Cons x r)
  then show ?thesis using Min.set_eq_fold [of x r] by (simp add: amin_def)
qed

lemma amax_Max:
  assumes "xs \<noteq> []"
  shows "amax xs = Inr (Max (set xs))"
proof (cases xs)
  case Nil
  with assms show ?thesis by simp
next
  case (Cons x r)
  then show ?thesis using Max.set_eq_fold [of x r] by (simp add: amax_def)
qed

lemma piecewise_two_conditions:
  "piecewise xs [c1, c2] [f1, f2, f3] =
     Inr (map (\<lambda>v. if c2 v then f2 v else if c1 v then f1 v else f3 v) xs)"
  by (simp add: piecewise_def assign_def)

lemma linear_exact_elements:
  assumes "data a \<noteq> []"
  shows "get_LUT_value_LINEAR_EXACT a window level =
           Inr (a\<lparr>data :=
                  map (\<lambda>x. if x > level + window / 2 then Max (set (data a))
                           else if x \<le> level - window / 2 then Min (set (data a))
                           else ((x - level + window / 2) / window *
                                 (Max (set (data a)) - Min (set (data a)))) + Min (set (data a)))
                    (data a)\<rparr>)"
  using assms
  by (simp add: get_LUT_value_LINEAR_EXACT_def amin_Min amax_Max piecewise_two_conditions)

lemma first_value_simps:
  "first_value (Single v) = Inr v" "first_value (MultiValue (v # vs)) = Inr v"
  by (simp_all add: first_value_def)

lemma voi_lut_window:
  assumes "VOILUTFunction ds \<noteq> Some ''SIGMOID''"
    and "WindowCenter ds = Some wc" and "WindowWidth ds = Some ww"
    and "first_value wc = Inr level" and "first_value ww = Inr window"
  shows "voi_lut env ds a = get_LUT_value_LINEAR_EXACT a window level"
  using assms by (simp add: voi_lut_def)

text \<open>
  Claim C2, as the code has it. With window \<open>w\<close> and level \<open>l\<close> (the first element of a
  multi-valued WindowCenter or WindowWidth) and a pixel array that is not empty, the
  windowing step maps every element \<open>x > l + w/2\<close> to the global maximum of the array,
  every element \<open>x \<le> l - w/2\<close> that is not \<open>> l + w/2\<close> to the global minimum, and every
  remaining element to \<open>((x - l + w/2) / w * (max - min)) + min\<close>, where then \<open>w > 0\<close>.
  The two conditions overlap only for a negative window; there \<open>np.piecewise\<close> applies
  them in order and the maximum wins.
\<close>

theorem linear_exact_windowing:
  assumes "data a \<noteq> []"
    and "VOILUTFunction ds \<noteq> Some ''SIGMOID''"
    and "WindowCenter ds = Some wc" and "WindowWidth ds = Some ww"
    and "wc = Single level \<or> (\<exists>r. wc = MultiValue (level # r))"
    and "ww = Single window \<or> (\<exists>r. ww = MultiValue (window # r))"
  shows "\<exists>out. voi_lut env ds a = Inr out \<and> get_LUT_value_LINEAR_EXACT a window level = Inr out \<and>
           shape out = shape a \<and> length (data out) = length (data a) \<and>
           (\<forall>i < length (data a).
              (data a ! i > level + window / 2 \<longrightarrow> data out ! i = Max (set (data a))) \<and>
              (data a ! i \<le> level - window / 2 \<and> \<not> data a ! i > level + window / 2 \<longrightarrow>
                 data out ! i = Min (set (data a))) \<and>
              (\<not> data a ! i \<le> level - window / 2 \<and> \<not> data a ! i > level + window / 2 \<longrightarrow>
                 0 < window \<and>
                 data out ! i =
                   ((data a ! i - level + window / 2) / window *
                    (Max (set (data a)) - Min (set (data a)))) + Min (set (data a))))"
proof -
  let ?f = "\<lambda>x. if x > level + window / 2 then Max (set (data a))
                 else if x \<le> level - window / 2 then Min (set (data a))
                 else ((x - level + window / 2) / window *
                       (Max (set (data a)) - Min (set (data a)))) + Min (set (data a))"
  let ?out = "a\<lparr>data := map ?f (data a)\<rparr>"
  have c: "first_value wc = Inr level" using assms(5) by (auto simp: first_value_simps)
  have w: "first_value ww = Inr window" using assms(6) by (auto simp: first_value_simps)
  have g: "get_LUT_value_LINEAR_EXACT a window level = Inr ?out"
    using assms(1) by (rule linear_exact_elements)
  have "voi_lut env ds a = get_LUT_value_LINEAR_EXACT a window level"
    using assms(2,3,4) c w by (rule voi_lut_window)
  from this g have v: "voi_lut env ds a = Inr ?out" by (rule trans)
  have e: "\<forall>i < length (data a).
              (data a ! i > level + window / 2 \<longrightarrow> data ?out ! i = Max (set (data a))) \<and>
              (data a ! i \<le> level - window / 2 \<and> \<not> data a ! i > level + window / 2 \<longrightarrow>
                 data ?out ! i = Min (set (data a))) \<and>
              (\<not> data a ! i \<le> level - window / 2 \<and> \<not> data a ! i > level + window / 2 \<longrightarrow>
                 0 < window \<and>
                 data ?out ! i =
                   ((data a ! i - level + window / 2) / window *
                    (Max (set (data a)) - Min (set (data a)))) + Min (set (data a)))"
    by auto
  have s: "shape ?out = shape a" "length (data ?out) = length (data a)" by simp_all
  from v g s e show ?thesis by blast
qed


theorem linear_exact_windowing_witness:
  "data \<lparr>shape = [2, 3], data = [0, 100, 150, 200, 300, 175 :: real]\<rparr> \<noteq> [] \<and>
   VOILUTFunction gray_dataset \<noteq> Some ''SIGMOID'' \<and>
   WindowCenter gray_dataset = Some (MultiValue [150, 40]) \<and>
   WindowWidth gray_dataset = Some (Single 100) \<and>
   voi_lut sim_env gray_dataset \<lparr>shape = [2, 3], data = [0, 100, 150, 200, 300, 175]\<rparr> =
     Inr \<lparr>shape = [2, 3], data = [0, 0, 150, 300, 300, 225]\<rparr>"
  using linear_exact_windowing
    [of "\<lparr>shape = [2, 3], data = [0, 100, 150, 200, 300, 175]\<rparr>" gray_dataset
        "MultiValue [150, 40]" "Single 100" 150 100 sim_env]
  by (simp add: gray_dataset_def blank_dataset_def voi_lut_def first_value_def
      get_LUT_value_LINEAR_EXACT_def amin_def amax_def piecewise_def assign_def)

text \<open>
  With window -100 and level 5 the element 0 of the array 0, 10, 0, 10 is at most
  \<open>l - w/2 = 55\<close>, and the step maps it to the maximum 10, not to the minimum 0.
\<close>

theorem linear_exact_negative_window_counterexample:
  "get_LUT_value_LINEAR_EXACT \<lparr>shape = [2, 2], data = [0, 10, 0, 10]\<rparr> (- 100) 5 =
     Inr \<lparr>shape = [2, 2], data = [10, 10, 10, 10]\<rparr> \<and>
   data \<lparr>shape = [2, 2], data = [0, 10, 0, 10 :: real]\<rparr> ! 0 \<le> 5 - (- 100) / 2 \<and>
   Min (set (data \<lparr>shape = [2, 2], data = [0, 10, 0, 10 :: real]\<rparr>)) = 0 \<and>
   data \<lparr>shape = [2, 2], data = [10, 10, 10, 10 :: real]\<rparr> ! 0 \<noteq> 0"
  by (simp add: get_LUT_value_LINEAR_EXACT_def amin_def amax_def piecewise_def assign_def)

section \<open>The presentation step on a flat image\<close>

lemma flat_elements:
  assumes "Max (set xs) = Min (set xs)" and "x \<in> set xs"
  shows "x = Min (set xs)"
proof -
  have "Min (set xs) \<le> x" using assms(2) by simp
  moreover have "x \<le> Max (set xs)" using assms(2) by simp
  ultimately show ?thesis using assms(1) by simp
qed

lemma presentation_lut_flat:
  assumes "data a \<noteq> []" and "Max (set (data a)) = Min (set (data a))"
  shows "presentation_lut a = Inr \<lparr>shape = shape a, data = replicate (length (data a)) NaN\<rparr>"
proof -
  define m where "m = Min (set (data a))"
  have mn: "amin (data a) = Inr m" unfolding m_def using assms(1) by (rule amin_Min)
  have mx: "amax (data a) = Inr m" unfolding m_def using amax_Max [OF assms(1)] assms(2) by simp
  have el: "fscale (fdiv (x - m) (m - m)) 255 = NaN" if "x \<in> set (data a)" for x
  proof -
    have "x = m" unfolding m_def using assms(2) that by (rule flat_elements)
    then show ?thesis by (simp add: fdiv_def)
  qed
  have "map (\<lambda>x. fscale (fdiv (x - m) (m - m)) 255) (data a) = map (\<lambda>x. NaN) (data a)"
    using el by (intro map_cong refl)
  also have "\<dots> = replicate (length (data a)) NaN" by (rule map_replicate_const)
  finally have d: "map (\<lambda>x. fscale (fdiv (x - m) (m - m)) 255) (data a) =
                     replicate (length (data a)) NaN" .
  show ?thesis unfolding presentation_lut_def mn mx by (simp only: sum.case d)
qed

lemma fmaximum_NaN_right: "fmaximum x NaN = NaN"
  by (cases x) simp_all

lemma fold_fmaximum_NaN: "fold fmaximum xs NaN = NaN"
  by (induction xs) (simp_all add: fmaximum_NaN_right)

lemma invert_NaN:
  "0 < n \<Longrightarrow> invert \<lparr>shape = s, data = replicate n NaN\<rparr> = Inr \<lparr>shape = s, data = replicate n NaN\<rparr>"
  by (cases n) (simp_all add: invert_def fl_amax_def fold_fmaximum_NaN)

lemma handle_monochrome1_NaN:
  "0 < n \<Longrightarrow> handle_monochrome1 ds \<lparr>shape = s, data = replicate n NaN\<rparr> =
     Inr \<lparr>shape = s, data = replicate n NaN\<rparr>"
  by (simp add: handle_monochrome1_def invert_NaN)

text \<open>
  Claim C1, as the code has it. For every dataset and every pixel array that is not empty
  and flat after the VOI step (its maximum equals its minimum), the presentation step
  raises nothing: it divides 0 by 0 and gives NaN in every element. The NaN goes through
  the MONOCHROME1 inversion to the conversion to 8 bits, so the output has the shape of
  the input and is uniform, every element being what the platform's conversion of a float
  to \<open>uint8\<close> gives for NaN. The code has no branch that puts 0 there.
\<close>

theorem flat_image_gives_nan:
  assumes "modality_lut env ds a = Inr a1" and "voi_lut env ds a1 = Inr a2"
    and "data a2 \<noteq> []" and "Max (set (data a2)) = Min (set (data a2))"
  shows "presentation_lut a2 = Inr \<lparr>shape = shape a2, data = replicate (length (data a2)) NaN\<rparr> \<and>
         pixel_process env ds a =
           Inr \<lparr>shape = shape a2, data = replicate (length (data a2)) (cast_undefined env NaN)\<rparr>"
proof -
  have n: "0 < length (data a2)" using assms(3) by simp
  have p: "presentation_lut a2 = Inr \<lparr>shape = shape a2, data = replicate (length (data a2)) NaN\<rparr>"
    using assms(3,4) by (rule presentation_lut_flat)
  have h: "handle_monochrome1 ds \<lparr>shape = shape a2, data = replicate (length (data a2)) NaN\<rparr> =
             Inr \<lparr>shape = shape a2, data = replicate (length (data a2)) NaN\<rparr>"
    using n by (rule handle_monochrome1_NaN)
  have "pixel_process env ds a =
          Inr (astype_uint8 env \<lparr>shape = shape a2, data = replicate (length (data a2)) NaN\<rparr>)"
    by (simp add: pixel_process_def assms(1,2) p h)
  then show ?thesis using p by (simp add: astype_uint8_def to_uint8_def)
qed

theorem flat_image_gives_nan_witness:
  "presentation_lut \<lparr>shape = [2, 2], data = [7, 7, 7, 7]\<rparr> =
     Inr \<lparr>shape = [2, 2], data = [NaN, NaN, NaN, NaN]\<rparr> \<and>
   pixel_process sim_env (blank_dataset\<lparr>PhotometricInterpretation := Some ''MONOCHROME1''\<rparr>)
       \<lparr>shape = [2, 2], data = [7, 7, 7, 7]\<rparr> =
     Inr \<lparr>shape = [2, 2], data = [0, 0, 0, 0]\<rparr>"
proof -
  let ?ds = "blank_dataset\<lparr>PhotometricInterpretation := Some ''MONOCHROME1''\<rparr>"
  let ?a = "\<lparr>shape = [2, 2], data = [7, 7, 7, 7 :: real]\<rparr>"
  have m: "modality_lut sim_env ?ds ?a = Inr ?a"
    by (simp add: modality_lut_def sim_env_def blank_dataset_def)
  have v: "voi_lut sim_env ?ds ?a = Inr ?a"
    by (simp add: voi_lut_def sim_env_def blank_dataset_def)
  have n: "data ?a \<noteq> []" by simp
  have f: "Max (set (data ?a)) = Min (set (data ?a))" by simp
  have c: "cast_undefined sim_env NaN = 0" by (simp add: sim_env_def)
  show ?thesis using flat_image_gives_nan [OF m v n f] by (simp add: c)
qed

text \<open>
  On the flat 2 by 2 image of sevens the presentation step returns NaN, not 0, in every
  element, and where the conversion of NaN gives 255 the output is 255 everywhere.
\<close>

theorem flat_image_counterexample:
  "presentation_lut \<lparr>shape = [2, 2], data = [7, 7, 7, 7]\<rparr> =
     Inr \<lparr>shape = [2, 2], data = [NaN, NaN, NaN, NaN]\<rparr> \<and>
   NaN \<noteq> Finite 0 \<and>
   pixel_process (sim_env\<lparr>cast_undefined := \<lambda>x. 255\<rparr>) blank_dataset
       \<lparr>shape = [2, 2], data = [7, 7, 7, 7]\<rparr> =
     Inr \<lparr>shape = [2, 2], data = [255, 255, 255, 255]\<rparr>"
proof -
  let ?a = "\<lparr>shape = [2, 2], data = [7, 7, 7, 7 :: real]\<rparr>"
  let ?env = "sim_env\<lparr>cast_undefined := \<lambda>x. 255\<rparr>"
  have p: "presentation_lut ?a = Inr \<lparr>shape = [2, 2], data = [NaN, NaN, NaN, NaN]\<rparr>"
    by (simp add: presentation_lut_def amin_def amax_def fdiv_def)
  have m: "modality_lut ?env blank_dataset ?a = Inr ?a"
    by (simp add: modality_lut_def sim_env_def blank_dataset_def)
  have v: "voi_lut ?env blank_dataset ?a = Inr ?a"
    by (simp add: voi_lut_def sim_env_def blank_dataset_def)
  have h: "handle_monochrome1 blank_dataset \<lparr>shape = [2, 2], data = [NaN, NaN, NaN, NaN]\<rparr> =
             Inr \<lparr>shape = [2, 2], data = [NaN, NaN, NaN, NaN]\<rparr>"
    by (simp add: handle_monochrome1_def blank_dataset_def)
  have q: "astype_uint8 ?env \<lparr>shape = [2, 2], data = [NaN, NaN, NaN, NaN]\<rparr> =
             \<lparr>shape = [2, 2], data = [255, 255, 255, 255]\<rparr>"
    by (simp add: astype_uint8_def to_uint8_def)
  have "pixel_process ?env blank_dataset ?a = Inr \<lparr>shape = [2, 2], data = [255, 255, 255, 255]\<rparr>"
    by (simp only: pixel_process_def m v p h q sum.case)
  with p show ?thesis by simp
qed

section \<open>The MONOCHROME1 inversion\<close>

text \<open>First in exact arithmetic, where two inversions of a normalized array give it back.\<close>

lemma fold_fmaximum_Finite:
  "fold fmaximum (map Finite rs) (Finite x) = Finite (fold max rs x)"
  by (induction rs arbitrary: x) simp_all

lemma fl_amax_Finite:
  assumes "rs \<noteq> []"
  shows "fl_amax (map Finite rs) = Inr (Finite (Max (set rs)))"
proof (cases rs)
  case Nil
  with assms show ?thesis by simp
next
  case (Cons x r)
  then show ?thesis
    using Max.set_eq_fold [of x r] by (simp add: fl_amax_def fold_fmaximum_Finite)
qed

lemma invert_Finite:
  assumes "rs \<noteq> []"
  shows "invert \<lparr>shape = s, data = map Finite rs\<rparr> =
           Inr \<lparr>shape = s, data = map Finite (map (\<lambda>r. Max (set rs) - r) rs)\<rparr>"
  using fl_amax_Finite [OF assms] by (simp add: invert_def comp_def)

lemma Max_reflect:
  assumes "rs \<noteq> []"
  shows "Max (set (map (\<lambda>r. c - r) rs)) = c - Min (set (rs :: real list))"
proof (rule Max_eqI)
  show "finite (set (map (\<lambda>r. c - r) rs))" by simp
next
  fix y assume "y \<in> set (map (\<lambda>r. c - r) rs)"
  then obtain r where r: "r \<in> set rs" "y = c - r" by auto
  then have "Min (set rs) \<le> r" by simp
  with r show "y \<le> c - Min (set rs)" by linarith
next
  have "Min (set rs) \<in> set rs" using assms by (intro Min_in) simp_all
  then show "c - Min (set rs) \<in> set (map (\<lambda>r. c - r) rs)" by auto
qed

text \<open>Two inversions give back a finite array whose minimum is 0.\<close>

lemma invert_twice_Finite:
  assumes "rs \<noteq> []" and "Min (set rs) = 0"
  shows "\<exists>p1. invert \<lparr>shape = s, data = map Finite rs\<rparr> = Inr p1 \<and>
           invert p1 = Inr \<lparr>shape = s, data = map Finite rs\<rparr>"
proof -
  let ?M = "Max (set rs)"
  let ?rs1 = "map (\<lambda>r. ?M - r) rs"
  have i1: "invert \<lparr>shape = s, data = map Finite rs\<rparr> = Inr \<lparr>shape = s, data = map Finite ?rs1\<rparr>"
    using assms(1) by (rule invert_Finite)
  have ne: "?rs1 \<noteq> []" using assms(1) by simp
  have M1: "Max (set ?rs1) = ?M" using Max_reflect [OF assms(1), of ?M] assms(2) by simp
  have "map (\<lambda>r. Max (set ?rs1) - r) ?rs1 = rs"
    unfolding M1 by (simp add: comp_def)
  then have i2: "invert \<lparr>shape = s, data = map Finite ?rs1\<rparr> = Inr \<lparr>shape = s, data = map Finite rs\<rparr>"
    using invert_Finite [OF ne, of s] by simp
  from i1 i2 show ?thesis by blast
qed

lemma presentation_lut_varied:
  assumes "data a \<noteq> []" and "Max (set (data a)) \<noteq> Min (set (data a))"
  shows "presentation_lut a =
           Inr \<lparr>shape = shape a,
                data = map Finite
                  (map (\<lambda>x. (x - Min (set (data a))) / (Max (set (data a)) - Min (set (data a))) * 255)
                     (data a))\<rparr>"
  using assms by (simp add: presentation_lut_def amin_Min amax_Max fdiv_def comp_def)

lemma normalized_Min_zero:
  fixes xs :: "real list"
  assumes "xs \<noteq> []" and "Max (set xs) \<noteq> Min (set xs)"
  shows "Min (set (map (\<lambda>x. (x - Min (set xs)) / (Max (set xs) - Min (set xs)) * 255) xs)) = 0"
proof (rule Min_eqI)
  show "finite (set (map (\<lambda>x. (x - Min (set xs)) / (Max (set xs) - Min (set xs)) * 255) xs))"
    by simp
next
  have le: "Min (set xs) \<le> Max (set xs)" using assms(1) by simp
  with assms(2) have pos: "0 < Max (set xs) - Min (set xs)" by linarith
  fix y assume "y \<in> set (map (\<lambda>x. (x - Min (set xs)) / (Max (set xs) - Min (set xs)) * 255) xs)"
  then obtain x where x: "x \<in> set xs"
    "y = (x - Min (set xs)) / (Max (set xs) - Min (set xs)) * 255" by auto
  have "0 \<le> x - Min (set xs)" using x(1) by simp
  then have "0 \<le> (x - Min (set xs)) / (Max (set xs) - Min (set xs))" using pos by simp
  then have "0 \<le> (x - Min (set xs)) / (Max (set xs) - Min (set xs)) * 255"
    by (rule mult_nonneg_nonneg) simp
  then show "0 \<le> y" unfolding x(2) .
next
  have "Min (set xs) \<in> set xs" using assms(1) by (intro Min_in) simp_all
  then have "(Min (set xs) - Min (set xs)) / (Max (set xs) - Min (set xs)) * 255
               \<in> set (map (\<lambda>x. (x - Min (set xs)) / (Max (set xs) - Min (set xs)) * 255) xs)"
    unfolding set_map by (rule imageI)
  then show "0 \<in> set (map (\<lambda>x. (x - Min (set xs)) / (Max (set xs) - Min (set xs)) * 255) xs)"
    by simp
qed


lemma presentation_lut_nonempty:
  assumes "presentation_lut a = Inr p"
  shows "data a \<noteq> []"
proof
  assume "data a = []"
  then have "presentation_lut a =
    Inl (ValueError ''zero-size array to reduction operation minimum which has no identity'')"
    by (simp add: presentation_lut_def amin_def)
  with assms show False by simp
qed

lemma invert_twice_normalized:
  assumes "presentation_lut a = Inr p"
  shows "\<exists>p1. invert p = Inr p1 \<and> invert p1 = Inr p"
proof -
  have ne: "data a \<noteq> []" using assms by (rule presentation_lut_nonempty)
  show ?thesis
  proof (cases "Max (set (data a)) = Min (set (data a))")
    case True
    have n: "0 < length (data a)" using ne by simp
    have p: "p = \<lparr>shape = shape a, data = replicate (length (data a)) NaN\<rparr>"
      using presentation_lut_flat [OF ne True] assms by simp
    have "invert p = Inr p" unfolding p using n by (rule invert_NaN)
    then show ?thesis by blast
  next
    case False
    let ?rs = "map (\<lambda>x. (x - Min (set (data a))) / (Max (set (data a)) - Min (set (data a))) * 255)
                 (data a)"
    have p: "p = \<lparr>shape = shape a, data = map Finite ?rs\<rparr>"
      using presentation_lut_varied [OF ne False] assms by simp
    have r: "?rs \<noteq> []" using ne by simp
    have z: "Min (set ?rs) = 0" using ne False by (rule normalized_Min_zero)
    show ?thesis unfolding p using r z by (rule invert_twice_Finite)
  qed
qed

text \<open>Now with rounding. With the identity for the rounding the steps are the exact ones.\<close>

lemma fsub_rounded_exact: "fsub_rounded (\<lambda>x. x) = fsub"
proof (intro ext)
  fix x y show "fsub_rounded (\<lambda>x. x) x y = fsub x y"
    by (induction x y rule: fsub.induct) simp_all
qed

lemma fscale_rounded_exact: "fscale_rounded (\<lambda>x. x) x c = fscale x c"
  by (cases x) simp_all

lemma fdiv_rounded_exact: "fdiv_rounded (\<lambda>x. x) a b = fdiv a b"
  by (simp add: fdiv_rounded_def fdiv_def)

lemma presentation_lut_rounded_exact: "presentation_lut_rounded (\<lambda>x. x) a = presentation_lut a"
  by (simp add: presentation_lut_rounded_def presentation_lut_def fdiv_rounded_exact
      fscale_rounded_exact split: sum.split)

lemma invert_rounded_exact: "invert_rounded (\<lambda>x. x) a = invert a"
  by (simp add: invert_rounded_def invert_def fsub_rounded_exact split: sum.split)

lemma round_two_grids_mono: "mono round_two_grids"
proof (rule monoI)
  fix x y :: real
  assume xy: "x \<le> y"
  show "round_two_grids x \<le> round_two_grids y"
  proof (cases "y < 128")
    case True
    then have "x < 128" using xy by simp
    moreover have "\<lceil>x * 8 - 1 / 2\<rceil> \<le> \<lceil>y * 8 - 1 / 2\<rceil>" using xy by (intro ceiling_mono) simp
    ultimately show ?thesis using True by (simp add: round_two_grids_def divide_right_mono)
  next
    case False
    show ?thesis
    proof (cases "x < 128")
      case True
      have "\<lceil>x * 8 - 1 / 2\<rceil> \<le> 1024" using True by (simp add: ceiling_le_iff)
      then have a: "real_of_int \<lceil>x * 8 - 1 / 2\<rceil> / 8 \<le> 128" by simp
      have "512 \<le> \<lceil>y * 4 - 1 / 2\<rceil>" using False by (simp add: le_ceiling_iff)
      then have b: "128 \<le> real_of_int \<lceil>y * 4 - 1 / 2\<rceil> / 4" by simp
      have rx: "round_two_grids x = real_of_int \<lceil>x * 8 - 1 / 2\<rceil> / 8"
        using True by (simp add: round_two_grids_def)
      have ry: "round_two_grids y = real_of_int \<lceil>y * 4 - 1 / 2\<rceil> / 4"
        using False by (simp add: round_two_grids_def)
      from a b show ?thesis unfolding rx ry by linarith
    next
      case x: False
      have "\<lceil>x * 4 - 1 / 2\<rceil> \<le> \<lceil>y * 4 - 1 / 2\<rceil>" using xy by (intro ceiling_mono) simp
      then show ?thesis using x False by (simp add: round_two_grids_def divide_right_mono)
    qed
  qed
qed

lemma round_two_grids_values:
  "round_two_grids 0 = 0" "round_two_grids 1 = 1" "round_two_grids 255 = 255"
proof -
  have a: "\<lceil>- (1 / 2) :: real\<rceil> = 0" by (rule ceiling_unique) simp_all
  have b: "\<lceil>15 / 2 :: real\<rceil> = 8" by (rule ceiling_unique) simp_all
  have c: "\<lceil>2039 / 2 :: real\<rceil> = 1020" by (rule ceiling_unique) simp_all
  show "round_two_grids 0 = 0" by (simp add: round_two_grids_def a)
  show "round_two_grids 1 = 1" by (simp add: round_two_grids_def b)
  show "round_two_grids 255 = 255" by (simp add: round_two_grids_def c)
qed

lemma round_two_grids_error: "\<bar>round_two_grids x - x\<bar> \<le> 1 / 4"
proof (cases "x < 128")
  case True
  define c where "c = real_of_int \<lceil>x * 8 - 1 / 2\<rceil>"
  have u: "c < x * 8 - 1 / 2 + 1" unfolding c_def by linarith
  have l: "x * 8 - 1 / 2 \<le> c" unfolding c_def by (rule le_of_int_ceiling)
  have r: "round_two_grids x = c / 8" using True by (simp add: round_two_grids_def c_def)
  have "\<bar>c / 8 - x\<bar> \<le> 1 / 4" using u l by linarith
  then show ?thesis unfolding r .
next
  case False
  define c where "c = real_of_int \<lceil>x * 4 - 1 / 2\<rceil>"
  have u: "c < x * 4 - 1 / 2 + 1" unfolding c_def by linarith
  have l: "x * 4 - 1 / 2 \<le> c" unfolding c_def by (rule le_of_int_ceiling)
  have r: "round_two_grids x = c / 4" using False by (simp add: round_two_grids_def c_def)
  have "\<bar>c / 4 - x\<bar> \<le> 1 / 4" using u l by linarith
  then show ?thesis unfolding r .
qed


lemma presentation_lut_rounded_nonempty:
  assumes "presentation_lut_rounded rnd a = Inr p"
  shows "data a \<noteq> []"
proof
  assume "data a = []"
  then have "presentation_lut_rounded rnd a =
    Inl (ValueError ''zero-size array to reduction operation minimum which has no identity'')"
    by (simp add: presentation_lut_rounded_def amin_def)
  with assms show False by simp
qed

text \<open>One sample of the rounded presentation step, when the rounded width is not 0.\<close>

lemma normalized_sample:
  assumes mono: "mono rnd" and r0: "rnd 0 = 0" and r1: "rnd 1 = 1" and r255: "rnd 255 = 255"
    and d: "rnd (mx - mn) \<noteq> 0" and x: "mn \<le> x" "x \<le> mx"
  shows "fscale_rounded rnd (fdiv_rounded rnd (rnd (x - mn)) (rnd (mx - mn))) 255 =
           Finite (rnd (rnd (rnd (x - mn) / rnd (mx - mn)) * 255))"
    and "0 \<le> rnd (rnd (rnd (x - mn) / rnd (mx - mn)) * 255)"
    and "rnd (rnd (rnd (x - mn) / rnd (mx - mn)) * 255) \<le> 255"
proof -
  let ?d = "rnd (mx - mn)"
  let ?n = "rnd (x - mn)"
  let ?q = "rnd (?n / ?d)"
  show "fscale_rounded rnd (fdiv_rounded rnd ?n ?d) 255 = Finite (rnd (?q * 255))"
    using d by (simp add: fdiv_rounded_def)
  have n0: "0 \<le> ?n" using monoD [OF mono, of 0 "x - mn"] x(1) r0 by simp
  have nd: "?n \<le> ?d" using monoD [OF mono, of "x - mn" "mx - mn"] x(2) by simp
  have dpos: "0 < ?d" using n0 nd d by linarith
  have "0 \<le> ?n / ?d" using n0 dpos by simp
  then have q0: "0 \<le> ?q" using monoD [OF mono, of 0 "?n / ?d"] r0 by simp
  have "?n / ?d \<le> 1" using nd dpos by simp
  then have q1: "?q \<le> 1" using monoD [OF mono, of "?n / ?d" 1] r1 by simp
  have "0 \<le> ?q * 255" using q0 by simp
  then show "0 \<le> rnd (?q * 255)" using monoD [OF mono, of 0 "?q * 255"] r0 by simp
  have "?q * 255 \<le> 255" using q1 by simp
  then show "rnd (?q * 255) \<le> 255" using monoD [OF mono, of "?q * 255" 255] r255 by simp
qed

text \<open>
  What the rounded presentation step produces: either NaN everywhere (when the rounded
  width of the range is 0), or finite samples between 0 and 255 with both 0 and 255
  among them.
\<close>

lemma presentation_lut_rounded_cases:
  assumes mono: "mono rnd" and r0: "rnd 0 = 0" and r1: "rnd 1 = 1" and r255: "rnd 255 = 255"
    and p: "presentation_lut_rounded rnd a = Inr p"
  shows "(p = \<lparr>shape = shape a, data = replicate (length (data a)) NaN\<rparr> \<and> 0 < length (data a)) \<or>
         (\<exists>ps. p = \<lparr>shape = shape a, data = map Finite ps\<rparr> \<and> ps \<noteq> [] \<and>
               (\<forall>v \<in> set ps. 0 \<le> v \<and> v \<le> 255) \<and> 0 \<in> set ps \<and> 255 \<in> set ps)"
proof -
  have ne: "data a \<noteq> []" using p by (rule presentation_lut_rounded_nonempty)
  define mn where "mn = Min (set (data a))"
  define mx where "mx = Max (set (data a))"
  let ?g = "\<lambda>x. fscale_rounded rnd (fdiv_rounded rnd (rnd (x - mn)) (rnd (mx - mn))) 255"
  have pe: "p = \<lparr>shape = shape a, data = map ?g (data a)\<rparr>"
    using p ne by (simp add: presentation_lut_rounded_def amin_Min amax_Max mn_def mx_def)
  have bounds: "mn \<le> x \<and> x \<le> mx" if "x \<in> set (data a)" for x
    using that by (simp add: mn_def mx_def)
  have mn_in: "mn \<in> set (data a)" unfolding mn_def using ne by (intro Min_in) simp_all
  have mx_in: "mx \<in> set (data a)" unfolding mx_def using ne by (intro Max_in) simp_all
  show ?thesis
  proof (cases "rnd (mx - mn) = 0")
    case True
    have "?g x = NaN" if "x \<in> set (data a)" for x
    proof -
      have "0 \<le> rnd (x - mn)" using monoD [OF mono, of 0 "x - mn"] bounds [OF that] r0 by simp
      moreover have "rnd (x - mn) \<le> rnd (mx - mn)"
        using monoD [OF mono, of "x - mn" "mx - mn"] bounds [OF that] by simp
      ultimately have "rnd (x - mn) = 0" using True by simp
      then show ?thesis using True by (simp add: fdiv_rounded_def)
    qed
    then have "map ?g (data a) = map (\<lambda>x. NaN) (data a)" by (intro map_cong refl)
    also have "\<dots> = replicate (length (data a)) NaN" by (rule map_replicate_const)
    finally have "p = \<lparr>shape = shape a, data = replicate (length (data a)) NaN\<rparr>"
      using pe by simp
    then show ?thesis using ne by simp
  next
    case False
    let ?h = "\<lambda>x. rnd (rnd (rnd (x - mn) / rnd (mx - mn)) * 255)"
    let ?ps = "map ?h (data a)"
    have s: "?g x = Finite (?h x) \<and> 0 \<le> ?h x \<and> ?h x \<le> 255" if "x \<in> set (data a)" for x
      using normalized_sample [OF mono r0 r1 r255 False, of x] bounds [OF that] by simp
    have "map ?g (data a) = map (\<lambda>x. Finite (?h x)) (data a)" using s by (intro map_cong refl) simp
    then have e: "p = \<lparr>shape = shape a, data = map Finite ?ps\<rparr>" using pe by (simp add: comp_def)
    have b: "\<forall>v \<in> set ?ps. 0 \<le> v \<and> v \<le> 255" using s by auto
    have "?h mn = 0" using r0 by simp
    then have z: "0 \<in> set ?ps" using mn_in by (metis (no_types, lifting) image_eqI set_map)
    have "rnd (mx - mn) / rnd (mx - mn) = 1" using False by simp
    then have "?h mx = 255" using r1 r255 by simp
    then have t: "255 \<in> set ?ps" using mx_in by (metis (no_types, lifting) image_eqI set_map)
    have "?ps \<noteq> []" using ne by simp
    with e b z t show ?thesis by blast
  qed
qed


lemma invert_rounded_NaN:
  "0 < n \<Longrightarrow> invert_rounded rnd \<lparr>shape = s, data = replicate n NaN\<rparr> =
     Inr \<lparr>shape = s, data = replicate n NaN\<rparr>"
  by (cases n) (simp_all add: invert_rounded_def fl_amax_def fold_fmaximum_NaN)

text \<open>
  The rounded inversion of finite samples between 0 and 255 that include 0 and 255: the
  maximum is 255, and the result is again such an array.
\<close>

lemma invert_rounded_Finite:
  assumes mono: "mono rnd" and r0: "rnd 0 = 0" and r255: "rnd 255 = 255"
    and ne: "ps \<noteq> []" and b: "\<forall>v \<in> set ps. 0 \<le> v \<and> v \<le> 255"
    and z: "0 \<in> set ps" and t: "255 \<in> set ps"
  shows "invert_rounded rnd \<lparr>shape = s, data = map Finite ps\<rparr> =
           Inr \<lparr>shape = s, data = map Finite (map (\<lambda>v. rnd (255 - v)) ps)\<rparr>"
    and "\<forall>v \<in> set (map (\<lambda>v. rnd (255 - v)) ps). 0 \<le> v \<and> v \<le> 255"
    and "0 \<in> set (map (\<lambda>v. rnd (255 - v)) ps)"
    and "255 \<in> set (map (\<lambda>v. rnd (255 - v)) ps)"
proof -
  have "Max (set ps) = 255" using b t by (intro Max_eqI) auto
  then have "fl_amax (map Finite ps) = Inr (Finite 255)" using fl_amax_Finite [OF ne] by simp
  then show "invert_rounded rnd \<lparr>shape = s, data = map Finite ps\<rparr> =
           Inr \<lparr>shape = s, data = map Finite (map (\<lambda>v. rnd (255 - v)) ps)\<rparr>"
    by (simp add: invert_rounded_def comp_def)
  show "\<forall>v \<in> set (map (\<lambda>v. rnd (255 - v)) ps). 0 \<le> v \<and> v \<le> 255"
  proof
    fix w assume "w \<in> set (map (\<lambda>v. rnd (255 - v)) ps)"
    then obtain v where v: "v \<in> set ps" "w = rnd (255 - v)" by auto
    have "0 \<le> 255 - v" "255 - v \<le> 255" using b v(1) by auto
    then have "rnd 0 \<le> rnd (255 - v)" "rnd (255 - v) \<le> rnd 255"
      using monoD [OF mono] by blast+
    then show "0 \<le> w \<and> w \<le> 255" using v(2) r0 r255 by simp
  qed
  have "rnd (255 - 255) = 0" using r0 by simp
  then show "0 \<in> set (map (\<lambda>v. rnd (255 - v)) ps)"
    using t by (metis (no_types, lifting) image_eqI set_map)
  have "rnd (255 - 0) = 255" using r255 by simp
  then show "255 \<in> set (map (\<lambda>v. rnd (255 - v)) ps)"
    using z by (metis (no_types, lifting) image_eqI set_map)
qed

text \<open>Two rounded inversions move a sample by at most one half.\<close>

lemma twice_inverted_sample:
  fixes rnd :: "real \<Rightarrow> real"
  assumes err: "\<forall>x. 0 \<le> x \<and> x \<le> 255 \<longrightarrow> \<bar>rnd x - x\<bar> \<le> 1 / 4"
    and v: "0 \<le> v" "v \<le> 255" and w: "0 \<le> rnd (255 - v)" "rnd (255 - v) \<le> 255"
  shows "\<bar>rnd (255 - rnd (255 - v)) - v\<bar> \<le> 1 / 2"
proof -
  define a where "a = rnd (255 - v)"
  define b where "b = rnd (255 - a)"
  have "0 \<le> 255 - v \<and> 255 - v \<le> 255" using v by simp
  then have 1: "\<bar>a - (255 - v)\<bar> \<le> 1 / 4"
    unfolding a_def using err [rule_format, of "255 - v"] by blast
  have "0 \<le> 255 - a \<and> 255 - a \<le> 255" using w unfolding a_def by simp
  then have 2: "\<bar>b - (255 - a)\<bar> \<le> 1 / 4"
    unfolding b_def using err [rule_format, of "255 - a"] by blast
  have "\<bar>b - v\<bar> \<le> 1 / 2" using 1 2 by linarith
  then show ?thesis unfolding b_def a_def .
qed

text \<open>The 8-bit values of two samples between 0 and 255 that are at most one half apart.\<close>

lemma to_uint8_in_range:
  assumes "0 \<le> v" and "v \<le> 255"
  shows "uint (to_uint8 env (Finite v)) = \<lfloor>v\<rfloor>"
proof -
  have f: "0 \<le> \<lfloor>v\<rfloor>" "\<lfloor>v\<rfloor> < 256" using assms by (simp_all add: floor_less_iff)
  have t: "to_uint8 env (Finite v) = word_of_int \<lfloor>v\<rfloor>" using assms by (simp add: to_uint8_def)
  have "uint (word_of_int \<lfloor>v\<rfloor> :: 8 word) = \<lfloor>v\<rfloor> mod 256"
    by (simp add: uint_word_of_int take_bit_eq_mod)
  also have "\<dots> = \<lfloor>v\<rfloor>" using f by simp
  finally show ?thesis unfolding t .
qed

lemma to_uint8_close:
  assumes "0 \<le> u" "u \<le> 255" "0 \<le> v" "v \<le> 255" and "\<bar>u - v\<bar> \<le> 1 / 2"
  shows "\<bar>int (unat (to_uint8 env (Finite u))) - int (unat (to_uint8 env (Finite v)))\<bar> \<le> 1"
proof -
  have "\<bar>\<lfloor>u\<rfloor> - \<lfloor>v\<rfloor>\<bar> \<le> 1" using assms(5) by linarith
  then have "\<bar>uint (to_uint8 env (Finite u)) - uint (to_uint8 env (Finite v))\<bar> \<le> 1"
    unfolding to_uint8_in_range [OF assms(1,2)] to_uint8_in_range [OF assms(3,4)] .
  then show ?thesis by simp
qed


text \<open>
  Claim C9. Let \<open>rnd\<close> be the rounding of the float arithmetic: monotone, exact on 0, 1
  and 255, and off by at most a quarter on values between 0 and 255 (round to nearest of
  float64 is all that, with an error far below a quarter). For every array that the
  presentation step produces, inverting twice with \<open>max(result) - result\<close> and converting
  to 8 bits gives, at every position, a value within 1 of the 8-bit value of the array
  itself.
\<close>

theorem inversion_twice_within_one:
  fixes rnd :: "real \<Rightarrow> real"
  assumes "mono rnd" and "rnd 0 = 0" and "rnd 1 = 1" and "rnd 255 = 255"
    and "\<forall>x. 0 \<le> x \<and> x \<le> 255 \<longrightarrow> \<bar>rnd x - x\<bar> \<le> 1 / 4"
    and "presentation_lut_rounded rnd a = Inr p"
  shows "\<exists>p1 p2. invert_rounded rnd p = Inr p1 \<and> invert_rounded rnd p1 = Inr p2 \<and>
           shape p2 = shape p \<and> length (data p2) = length (data p) \<and>
           (\<forall>i < length (data p).
              \<bar>int (unat (to_uint8 env (data p2 ! i))) - int (unat (to_uint8 env (data p ! i)))\<bar> \<le> 1)"
proof -
  consider
    (nan) "p = \<lparr>shape = shape a, data = replicate (length (data a)) NaN\<rparr>" "0 < length (data a)"
  | (finite) ps where "p = \<lparr>shape = shape a, data = map Finite ps\<rparr>" "ps \<noteq> []"
      "\<forall>v \<in> set ps. 0 \<le> v \<and> v \<le> 255" "0 \<in> set ps" "255 \<in> set ps"
    using presentation_lut_rounded_cases [OF assms(1,2,3,4,6)] by blast
  then show ?thesis
  proof cases
    case nan
    have "invert_rounded rnd p = Inr p" unfolding nan(1) using nan(2) by (rule invert_rounded_NaN)
    moreover have "\<forall>i < length (data p).
        \<bar>int (unat (to_uint8 env (data p ! i))) - int (unat (to_uint8 env (data p ! i)))\<bar> \<le> 1"
      by simp
    ultimately show ?thesis by blast
  next
    case finite
    let ?qs = "map (\<lambda>v. rnd (255 - v)) ps"
    let ?us = "map (\<lambda>v. rnd (255 - v)) ?qs"
    let ?p1 = "\<lparr>shape = shape a, data = map Finite ?qs\<rparr>"
    let ?p2 = "\<lparr>shape = shape a, data = map Finite ?us\<rparr>"
    note q = invert_rounded_Finite [OF assms(1,2,4) finite(2,3,4,5)]
    have qne: "?qs \<noteq> []" using finite(2) by simp
    note u = invert_rounded_Finite [OF assms(1,2,4) qne q(2,3,4)]
    have i1: "invert_rounded rnd p = Inr ?p1" unfolding finite(1) by (rule q(1))
    have i2: "invert_rounded rnd ?p1 = Inr ?p2" by (rule u(1))
    have close: "\<bar>int (unat (to_uint8 env (data ?p2 ! i))) -
                  int (unat (to_uint8 env (data p ! i)))\<bar> \<le> 1"
      if "i < length (data p)" for i
    proof -
      have i: "i < length ps" using that finite(1) by simp
      define v where "v = ps ! i"
      have vin: "v \<in> set ps" unfolding v_def using i by simp
      then have v: "0 \<le> v" "v \<le> 255" using finite(3) by auto
      have "rnd (255 - v) \<in> set ?qs" using vin by simp
      then have w: "0 \<le> rnd (255 - v)" "rnd (255 - v) \<le> 255" using q(2) by blast+
      have "rnd (255 - rnd (255 - v)) \<in> set ?us" using vin by simp
      then have ub: "0 \<le> rnd (255 - rnd (255 - v))" "rnd (255 - rnd (255 - v)) \<le> 255"
        using u(2) by blast+
      have d: "\<bar>rnd (255 - rnd (255 - v)) - v\<bar> \<le> 1 / 2"
        using assms(5) v w by (rule twice_inverted_sample)
      have e2: "data ?p2 ! i = Finite (rnd (255 - rnd (255 - v)))" using i by (simp add: v_def)
      have e0: "data p ! i = Finite v" using i finite(1) by (simp add: v_def)
      show ?thesis unfolding e2 e0 using ub v d by (rule to_uint8_close)
    qed
    have "shape ?p2 = shape p" "length (data ?p2) = length (data p)" using finite(1) by simp_all
    with i1 i2 close show ?thesis by blast
  qed
qed

text \<open>
  An example where the two 8-bit values differ: with the rounding \<open>round_two_grids\<close> the
  image 0, 1, 8, 8 is normalized to 0, 31.875, 255, 255; two inversions give 0, 32, 255,
  255, and the second sample is 32 instead of 31 after the conversion to 8 bits.
\<close>

lemma round_two_grids_points:
  "round_two_grids 8 = 8" "round_two_grids (1 / 8) = 1 / 8" "round_two_grids (255 / 8) = 255 / 8"
  "round_two_grids (1785 / 8) = 223" "round_two_grids 32 = 32"
proof -
  have a: "\<lceil>127 / 2 :: real\<rceil> = 64" by (rule ceiling_unique) simp_all
  have b: "\<lceil>1 / 2 :: real\<rceil> = 1" by (rule ceiling_unique) simp_all
  have c: "\<lceil>509 / 2 :: real\<rceil> = 255" by (rule ceiling_unique) simp_all
  have d: "\<lceil>511 / 2 :: real\<rceil> = 256" by (rule ceiling_unique) simp_all
  show "round_two_grids 8 = 8" by (simp add: round_two_grids_def a)
  show "round_two_grids (1 / 8) = 1 / 8" by (simp add: round_two_grids_def b)
  show "round_two_grids (255 / 8) = 255 / 8" by (simp add: round_two_grids_def c)
  show "round_two_grids (1785 / 8) = 223" by (simp add: round_two_grids_def)
  show "round_two_grids 32 = 32" by (simp add: round_two_grids_def d)
qed


lemma rounded_example_presentation:
  "presentation_lut_rounded round_two_grids \<lparr>shape = [2, 2], data = [0, 1, 8, 8]\<rparr> =
     Inr \<lparr>shape = [2, 2], data = [Finite 0, Finite (255 / 8), Finite 255, Finite 255]\<rparr>"
  by (simp add: presentation_lut_rounded_def amin_def amax_def fdiv_rounded_def
      round_two_grids_values round_two_grids_points)

lemma rounded_example_inversions:
  "invert_rounded round_two_grids
     \<lparr>shape = [2, 2], data = [Finite 0, Finite (255 / 8), Finite 255, Finite 255]\<rparr> =
     Inr \<lparr>shape = [2, 2], data = [Finite 255, Finite 223, Finite 0, Finite 0]\<rparr>"
  "invert_rounded round_two_grids
     \<lparr>shape = [2, 2], data = [Finite 255, Finite 223, Finite 0, Finite 0]\<rparr> =
     Inr \<lparr>shape = [2, 2], data = [Finite 0, Finite 32, Finite 255, Finite 255]\<rparr>"
proof -
  have m1: "255 - 255 / 8 = (1785 / 8 :: real)" by simp
  show "invert_rounded round_two_grids
     \<lparr>shape = [2, 2], data = [Finite 0, Finite (255 / 8), Finite 255, Finite 255]\<rparr> =
     Inr \<lparr>shape = [2, 2], data = [Finite 255, Finite 223, Finite 0, Finite 0]\<rparr>"
    by (simp add: invert_rounded_def fl_amax_def m1 round_two_grids_values round_two_grids_points)
  show "invert_rounded round_two_grids
     \<lparr>shape = [2, 2], data = [Finite 255, Finite 223, Finite 0, Finite 0]\<rparr> =
     Inr \<lparr>shape = [2, 2], data = [Finite 0, Finite 32, Finite 255, Finite 255]\<rparr>"
    by (simp add: invert_rounded_def fl_amax_def round_two_grids_values round_two_grids_points)
qed

lemma rounded_example_bytes:
  "map (to_uint8 sim_env) [Finite 0, Finite (255 / 8), Finite 255, Finite 255] = [0, 31, 255, 255]"
  "map (to_uint8 sim_env) [Finite 0, Finite 32, Finite 255, Finite 255] = [0, 32, 255, 255]"
  by (simp_all add: to_uint8_def)

theorem inversion_twice_within_one_witness:
  "mono round_two_grids \<and> round_two_grids 0 = 0 \<and> round_two_grids 1 = 1 \<and>
   round_two_grids 255 = 255 \<and> (\<forall>x. \<bar>round_two_grids x - x\<bar> \<le> 1 / 4) \<and>
   presentation_lut_rounded round_two_grids \<lparr>shape = [2, 2], data = [0, 1, 8, 8]\<rparr> =
     Inr \<lparr>shape = [2, 2], data = [Finite 0, Finite (255 / 8), Finite 255, Finite 255]\<rparr> \<and>
   (\<exists>p1 p2.
      invert_rounded round_two_grids
        \<lparr>shape = [2, 2], data = [Finite 0, Finite (255 / 8), Finite 255, Finite 255]\<rparr> = Inr p1 \<and>
      invert_rounded round_two_grids p1 = Inr p2 \<and>
      map (to_uint8 sim_env) (data p2) = [0, 32, 255, 255] \<and>
      map (to_uint8 sim_env) [Finite 0, Finite (255 / 8), Finite 255, Finite 255] =
        [0, 31, 255, 255])"
proof -
  let ?p = "\<lparr>shape = [2, 2], data = [Finite 0, Finite (255 / 8), Finite 255, Finite 255]\<rparr>"
  have e: "\<forall>x. 0 \<le> x \<and> x \<le> 255 \<longrightarrow> \<bar>round_two_grids x - x\<bar> \<le> 1 / 4"
    using round_two_grids_error by blast
  from inversion_twice_within_one
    [OF round_two_grids_mono round_two_grids_values e rounded_example_presentation, of sim_env]
  obtain p1 p2 where i: "invert_rounded round_two_grids ?p = Inr p1"
      "invert_rounded round_two_grids p1 = Inr p2"
    by blast
  have "p2 = \<lparr>shape = [2, 2], data = [Finite 0, Finite 32, Finite 255, Finite 255]\<rparr>"
    using i rounded_example_inversions by simp
  then have b: "map (to_uint8 sim_env) (data p2) = [0, 32, 255, 255]"
    using rounded_example_bytes(2) by simp
  have x: "\<exists>p1 p2.
      invert_rounded round_two_grids ?p = Inr p1 \<and>
      invert_rounded round_two_grids p1 = Inr p2 \<and>
      map (to_uint8 sim_env) (data p2) = [0, 32, 255, 255] \<and>
      map (to_uint8 sim_env) [Finite 0, Finite (255 / 8), Finite 255, Finite 255] =
        [0, 31, 255, 255]"
    by (rule exI [of _ p1], rule exI [of _ p2]) (intro conjI i b rounded_example_bytes(1))
  have f: "\<forall>x. \<bar>round_two_grids x - x\<bar> \<le> 1 / 4" using round_two_grids_error by (rule allI)
  show ?thesis
    by (intro conjI round_two_grids_mono round_two_grids_values f rounded_example_presentation x)
qed

section \<open>The color step\<close>

text \<open>
  On an array of shape H x W x 3 the step swaps the first and the third sample of every
  pixel when PhotometricInterpretation is in the list, and it leaves any array as it is
  when PhotometricInterpretation is absent or not in the list.
\<close>

lemma handle_color_other:
  "PhotometricInterpretation ds = None \<or>
   (\<exists>p. PhotometricInterpretation ds = Some p \<and> p \<notin> set color_photometrics) \<Longrightarrow>
   handle_color ds a = Inr a"
  by (auto simp: handle_color_def)

lemma swap_source_three_channels:
  "swap_source [h, w, 3] k = (if k mod 3 = 0 then k + 2 else if k mod 3 = 2 then k - 2 else k)"
  by (simp add: swap_source_def)

lemma swap_source_rgb:
  "swap_source [h, w, 3] (3 * j) = 3 * j + 2"
  "swap_source [h, w, 3] (3 * j + 1) = 3 * j + 1"
  "swap_source [h, w, 3] (3 * j + 2) = 3 * j"
proof -
  have m: "(3 * j) mod 3 = 0" "(3 * j + 1) mod 3 = 1" "(3 * j + 2) mod 3 = 2"
    by presburger+
  show "swap_source [h, w, 3] (3 * j) = 3 * j + 2"
    by (simp only: swap_source_three_channels m) simp
  show "swap_source [h, w, 3] (3 * j + 1) = 3 * j + 1"
    by (simp only: swap_source_three_channels m) simp
  show "swap_source [h, w, 3] (3 * j + 2) = 3 * j"
    by (simp only: swap_source_three_channels m) simp
qed

lemma swap_channels_rgb:
  assumes "shape a = [h, w, 3]" and "length (data a) = h * w * 3"
  shows "\<exists>out. swap_channels a = Inr out \<and> shape out = shape a \<and>
           length (data out) = length (data a) \<and>
           (\<forall>j < h * w.
              data out ! (3 * j) = data a ! (3 * j + 2) \<and>
              data out ! (3 * j + 1) = data a ! (3 * j + 1) \<and>
              data out ! (3 * j + 2) = data a ! (3 * j))"
proof -
  let ?f = "\<lambda>k. data a ! swap_source (shape a) k"
  let ?out = "a\<lparr>data := map ?f [0..<length (data a)]\<rparr>"
  have s: "swap_channels a = Inr ?out" using assms(1) by (simp add: swap_channels_def)
  have n: "data ?out ! k = ?f k" if "k < length (data a)" for k
    using that by simp
  have e: "data ?out ! (3 * j) = data a ! (3 * j + 2) \<and>
           data ?out ! (3 * j + 1) = data a ! (3 * j + 1) \<and>
           data ?out ! (3 * j + 2) = data a ! (3 * j)" if "j < h * w" for j
  proof -
    have b: "3 * j + 2 < length (data a)" using that assms(2) by simp
    then have b0: "3 * j < length (data a)" and b1: "3 * j + 1 < length (data a)" by simp_all
    have "data ?out ! (3 * j) = data a ! swap_source [h, w, 3] (3 * j)"
      using n [OF b0] by (simp only: assms(1))
    moreover have "data ?out ! (3 * j + 1) = data a ! swap_source [h, w, 3] (3 * j + 1)"
      using n [OF b1] by (simp only: assms(1))
    moreover have "data ?out ! (3 * j + 2) = data a ! swap_source [h, w, 3] (3 * j + 2)"
      using n [OF b] by (simp only: assms(1))
    ultimately show ?thesis by (simp only: swap_source_rgb simp_thms)
  qed
  have "shape ?out = shape a" "length (data ?out) = length (data a)" by simp_all
  with s e show ?thesis by blast
qed

lemma handle_color_rgb:
  assumes "PhotometricInterpretation ds = Some p" and "p \<in> set color_photometrics"
  shows "handle_color ds a = swap_channels a"
  using assms by (simp add: handle_color_def)

text \<open>
  Claim C4 says that an array that is not 3-channel is left unchanged by the color step
  whatever PhotometricInterpretation is. The step has no test of the shape: with
  PALETTE COLOR, whose pixel array has two dimensions, the indexing raises \<open>IndexError\<close>
  and the file is reported as an error instead of being converted.
\<close>

theorem palette_color_two_dimensional_raises:
  "handle_color palette_dataset \<lparr>shape = [2, 2], data = [0, 85, 170, 255 :: 8 word]\<rparr> =
     Inl (IndexError ''too many indices for array'') \<and>
   ds_to_file (sim_env\<lparr>dcmread := \<lambda>p. Inr palette_dataset\<rparr>) [] [''scan'', ''p.dcm''] [''out''] =
     (RStr ''Error converting scan/p.dcm: too many indices for array'', [])"
proof -
  let ?env = "sim_env\<lparr>dcmread := \<lambda>p. Inr palette_dataset\<rparr>"
  let ?a = "\<lparr>shape = [2, 2], data = [0, 85, 170, 255 :: real]\<rparr>"
  let ?img = "\<lparr>shape = [2, 2], data = [0, 85, 170, 255 :: 8 word]\<rparr>"
  have c: "handle_color palette_dataset ?img = Inl (IndexError ''too many indices for array'')"
    by (simp add: handle_color_def palette_dataset_def blank_dataset_def color_photometrics_def
        swap_channels_def)
  have d: "dcmread ?env [''scan'', ''p.dcm''] = Inr palette_dataset" by (simp add: sim_env_def)
  have u: "is_unsupported palette_dataset = Inr None"
    by (simp add: is_unsupported_def getattr_def palette_dataset_def blank_dataset_def)
  have p: "pixel_array palette_dataset = Inr ?a"
    by (simp add: palette_dataset_def blank_dataset_def)
  have m: "\<not> is_multiframe ?a" by (simp add: is_multiframe_def)
  have q: "pixel_process ?env palette_dataset ?a = Inr ?img"
    by (simp add: pixel_process_def sim_env_def palette_dataset_def blank_dataset_def
        modality_lut_def voi_lut_def presentation_lut_def amin_def amax_def fdiv_def
        handle_monochrome1_def astype_uint8_def to_uint8_def)
  have b: "ds_to_file_body ?env [] [''scan'', ''p.dcm''] [''out''] =
             (Inl (IndexError ''too many indices for array''), [])"
    using d u p m q c by (rule body_raises_color)
  have "ds_to_file ?env [] [''scan'', ''p.dcm''] [''out''] =
          (RStr ''Error converting scan/p.dcm: too many indices for array'', [])"
    by (simp add: ds_to_file_def b path_str_def)
  with c show ?thesis by simp
qed

end
